theory Spec2Isabelle
  imports Main "HOL-Library.Word" "HOL-Library.Sublist"
begin

section \<open>Python values and errors\<close>

text \<open>
  The values that travel in the \<open>data\<close> field of an envelope
  (\<open>Optional[Union[int, float, str, List, Dict, SerializableDataClass,
  SerializableBaseModel]]\<close>) and, since a dataclass checks no field type, in every
  other field as well. A float is carried as its 64 bits and never computed with.
  Dict keys are \<open>str\<close>, as in the JSON-shaped payloads of the transport; a dict is an
  association list in insertion order, its keys distinct. \<open>PData c fs\<close> is an instance of a dataclass
  \<open>c\<close> deriving from \<open>SerializableDataClass\<close> with the fields \<open>fs\<close>;
  \<open>PModel c fs\<close> is an instance of a pydantic model deriving from
  \<open>SerializableBaseModel\<close>.
\<close>

datatype pyval =
    PNone
  | PBool bool
  | PInt int
  | PFloat "64 word"
  | PStr string
  | PList "pyval list"
  | PDict "(string \<times> pyval) list"
  | PData string "(string \<times> pyval) list"
  | PModel string "(string \<times> pyval) list"

text \<open>
  The exceptions the code raises or lets through. \<open>Mapped c msg tb ev\<close> is the
  instance \<open>exception_class(message)\<close> of the class named \<open>c\<close> found in the client's
  exception map, with its \<open>tb\<close> and \<open>event\<close> attributes; \<open>ResponseError msg tb\<close>
  is the generic wrapped error; \<open>Propagated c msg\<close> is an exception of a handler that
  the dispatcher does not catch; \<open>SocketIOError msg\<close> is an error of the transport
  (\<open>socketio.exceptions.SocketIOError\<close> and its subclasses) with \<open>str(e) = msg\<close>;
  \<open>ConnectionError\<close> is the builtin one.
\<close>

datatype py_error =
    TypeError
  | AttributeError
  | ValueError string
  | FileNotFoundError
  | FileExistsError
  | NotADirectoryError
  | IsADirectoryError
  | ExtensionNotFound
  | ConnectionRefusedError string
  | ResponseTimeoutError string
  | ResponseError string pyval
  | Mapped string pyval pyval pyval
  | Propagated string string
  | SocketIOError string
  | ConnectionError string

text \<open>
  The builtin \<open>str\<close>: the identity on a \<open>str\<close>. What it prints for any other
  object is the interpreter's, taken as the parameter \<open>str_other\<close>.
\<close>

definition py_str :: "(pyval \<Rightarrow> string) \<Rightarrow> pyval \<Rightarrow> string" where
  "py_str str_other v = (case v of PStr s \<Rightarrow> s | _ \<Rightarrow> str_other v)"

text \<open>\<open>s in t\<close> for two strs: \<open>s\<close> occurs in \<open>t\<close>.\<close>

fun str_in :: "string \<Rightarrow> string \<Rightarrow> bool" where
  "str_in s [] = (s = [])"
| "str_in s (c # cs) = (prefix s (c # cs) \<or> str_in s cs)"

text \<open>The decimal digits of a natural number, as an f-string prints it.\<close>

function str_nat :: "nat \<Rightarrow> string" where
  "str_nat n =
     (if n < 10 then [''0123456789'' ! n]
      else str_nat (n div 10) @ [''0123456789'' ! (n mod 10)])"
  by pat_completeness auto
termination
  by (relation "measure id") auto

text \<open>
  \<open>dataclasses.asdict\<close> recurses with \<open>_asdict_inner\<close>: a dataclass instance becomes
  the dict of its fields, lists and dicts are rebuilt from their converted members,
  anything else is deep-copied (an equal value).
\<close>

primrec asdict_inner :: "pyval \<Rightarrow> pyval" where
  "asdict_inner PNone = PNone"
| "asdict_inner (PBool b) = PBool b"
| "asdict_inner (PInt i) = PInt i"
| "asdict_inner (PFloat w) = PFloat w"
| "asdict_inner (PStr s) = PStr s"
| "asdict_inner (PList xs) = PList (map asdict_inner xs)"
| "asdict_inner (PDict kvs) = PDict (map (map_prod id asdict_inner) kvs)"
| "asdict_inner (PData c fs) = PDict (map (map_prod id asdict_inner) fs)"
| "asdict_inner (PModel c fs) = PModel c fs"

text \<open>
  \<open>isinstance(x, SerializableDataClass) or isinstance(x, SerializableBaseModel)\<close>
\<close>

fun is_serializable :: "pyval \<Rightarrow> bool" where
  "is_serializable (PData c fs) = True"
| "is_serializable (PModel c fs) = True"
| "is_serializable v = False"

section \<open>Envelope model\<close>

record SerializableException =
  name :: pyval
  message :: pyval
  tb :: pyval

record Req =
  req_event :: pyval
  req_data :: pyval

record Rsp =
  status :: pyval
  event :: pyval
  data :: pyval

abbreviation SUCCESS :: string where "SUCCESS \<equiv> ''success''"
abbreviation ERROR :: string where "ERROR \<equiv> ''error''"

text \<open>
  \<open>event + '_req'\<close> and \<open>event + '_rsp'\<close>: string concatenation; for an event that
  is not a \<open>str\<close> the operator \<open>+\<close> with a \<open>str\<close> on the right raises TypeError.
\<close>

fun get_req_event :: "pyval \<Rightarrow> py_error + pyval" where
  "get_req_event (PStr s) = Inr (PStr (s @ ''_req''))"
| "get_req_event v = Inl TypeError"

fun get_rsp_event :: "pyval \<Rightarrow> py_error + pyval" where
  "get_rsp_event (PStr s) = Inr (PStr (s @ ''_rsp''))"
| "get_rsp_event v = Inl TypeError"

text \<open>
  \<open>cls(**d)\<close> for a dataclass with the fields \<open>required @ optional\<close>, the optional
  ones defaulting to None: TypeError when \<open>d\<close> is not a mapping, names a keyword that
  is no field, or lacks a required field. No field value is inspected.
\<close>

definition bind_kwargs :: "string list \<Rightarrow> string list \<Rightarrow> pyval \<Rightarrow> py_error + (string \<Rightarrow> pyval)" where
  "bind_kwargs required optional d =
     (case d of
        PDict kvs \<Rightarrow>
          if \<not> list_all (\<lambda>k. k \<in> set (required @ optional)) (map fst kvs) then Inl TypeError
          else if \<not> list_all (\<lambda>k. k \<in> set (map fst kvs)) required then Inl TypeError
          else Inr (\<lambda>k. case map_of kvs k of Some v \<Rightarrow> v | None \<Rightarrow> PNone)
      | _ \<Rightarrow> Inl TypeError)"

definition SerializableException_from_dict :: "pyval \<Rightarrow> py_error + SerializableException" where
  "SerializableException_from_dict d =
     (case bind_kwargs [''name'', ''message'', ''tb''] [] d of
        Inl e \<Rightarrow> Inl e
      | Inr f \<Rightarrow> Inr \<lparr>name = f ''name'', message = f ''message'', tb = f ''tb''\<rparr>)"

definition SerializableException_to_dict :: "SerializableException \<Rightarrow> pyval" where
  "SerializableException_to_dict x =
     PDict [(''name'', asdict_inner (name x)),
            (''message'', asdict_inner (message x)),
            (''tb'', asdict_inner (tb x))]"

definition Req_from_dict :: "pyval \<Rightarrow> py_error + Req" where
  "Req_from_dict d =
     (case bind_kwargs [''event''] [''data''] d of
        Inl e \<Rightarrow> Inl e
      | Inr f \<Rightarrow> Inr \<lparr>req_event = f ''event'', req_data = f ''data''\<rparr>)"

text \<open>\<open>to_json\<close> is the pydantic serialiser of the nested value, a parameter.\<close>

definition Req_to_dict :: "(pyval \<Rightarrow> string) \<Rightarrow> (pyval \<Rightarrow> string) \<Rightarrow> Req \<Rightarrow> pyval" where
  "Req_to_dict str_other to_json r =
     (if is_serializable (req_data r)
      then PDict [(''event'', PStr (py_str str_other (req_event r))),
                  (''data'', PStr (to_json (req_data r)))]
      else PDict [(''event'', asdict_inner (req_event r)),
                  (''data'', asdict_inner (req_data r))])"

definition Rsp_from_dict :: "pyval \<Rightarrow> py_error + Rsp" where
  "Rsp_from_dict d =
     (case bind_kwargs [''status''] [''event'', ''data''] d of
        Inl e \<Rightarrow> Inl e
      | Inr f \<Rightarrow> Inr \<lparr>status = f ''status'', event = f ''event'', data = f ''data''\<rparr>)"

definition Rsp_to_dict :: "(pyval \<Rightarrow> string) \<Rightarrow> (pyval \<Rightarrow> string) \<Rightarrow> Rsp \<Rightarrow> pyval" where
  "Rsp_to_dict str_other to_json r =
     (if is_serializable (data r)
      then PDict [(''status'', status r),
                  (''event'', PStr (py_str str_other (event r))),
                  (''data'', PStr (to_json (data r)))]
      else PDict [(''status'', asdict_inner (status r)),
                  (''event'', asdict_inner (event r)),
                  (''data'', asdict_inner (data r))])"

text \<open>
  A value built from None, bool, int, float, str, list and dict only: the scalar,
  sequence and mapping members of the data union, with no dataclass instance inside.
\<close>

primrec plain :: "pyval \<Rightarrow> bool" where
  "plain PNone = True"
| "plain (PBool b) = True"
| "plain (PInt i) = True"
| "plain (PFloat w) = True"
| "plain (PStr s) = True"
| "plain (PList xs) = list_all plain xs"
| "plain (PDict kvs) = list_all (pred_prod (\<lambda>k. True) plain) kvs"
| "plain (PData c fs) = False"
| "plain (PModel c fs) = False"

section \<open>Client: request/response correlator\<close>

text \<open>
  An exception class as the client uses it: its name, and what calling it with the
  message as its one positional argument does: it raises an error, or it builds the
  instance (None).
\<close>

record exception_class =
  cls_name :: string
  cls_init :: "pyval \<Rightarrow> py_error option"

text \<open>
  The exception classes that \<open>ws_base.py\<close> defines. \<open>WsBaseError\<close> and
  \<open>ResponseTimeoutError\<close> inherit the constructor of \<open>Exception\<close>.
  \<open>ResponseError.__init__(self, *args, tb)\<close> has a keyword-only \<open>tb\<close> without a
  default: called with the message alone it raises TypeError.
\<close>

definition WsBaseError_class :: exception_class where
  "WsBaseError_class = \<lparr>cls_name = ''WsBaseError'', cls_init = (\<lambda>m. None)\<rparr>"

definition ResponseError_class :: exception_class where
  "ResponseError_class = \<lparr>cls_name = ''ResponseError'', cls_init = (\<lambda>m. Some TypeError)\<rparr>"

definition ResponseTimeoutError_class :: exception_class where
  "ResponseTimeoutError_class = \<lparr>cls_name = ''ResponseTimeoutError'', cls_init = (\<lambda>m. None)\<rparr>"

text \<open>
  \<open>build_exception_map\<close>: of the members of a module (\<open>inspect.getmembers\<close>, by
  name), those that are classes deriving from \<open>BaseException\<close>.
\<close>

datatype module_member = ExceptionClass exception_class | OtherMember

definition build_exception_map :: "(string \<times> module_member) list \<Rightarrow> (string \<times> exception_class) list" where
  "build_exception_map members =
     concat (map (\<lambda>(n, m). case m of ExceptionClass c \<Rightarrow> [(n, c)] | OtherMember \<Rightarrow> []) members)"

text \<open>
  The socketio client object as far as the code reads it: its \<open>connected\<close> attribute.
  What its methods \<open>disconnect\<close> and \<open>connect\<close> do is the transport's, and a
  parameter of the functions that call them: the error the call raises, if any, and
  the object as the call leaves it.
\<close>

record sio_client =
  sio_connected :: bool

text \<open>
  The attributes of a \<open>ClientBase\<close> that the modelled methods use. \<open>exception_map\<close>
  maps a class name to the exception class registered under it; \<open>rsp_event\<close> is the
  flag of the \<open>threading.Event\<close>.
\<close>

record ClientBase =
  server_url :: string
  exception_map :: "(string \<times> exception_class) list"
  auth_data :: pyval
  rsp :: "Rsp option"
  rsp_event :: bool
  sio :: "sio_client option"

definition connected :: "ClientBase \<Rightarrow> bool" where
  "connected c = (case sio c of None \<Rightarrow> False | Some s \<Rightarrow> sio_connected s)"

text \<open>
  \<open>ClientBase.disconnect\<close>: when \<open>self.sio.disconnect()\<close> raises, the assignment
  \<open>self.sio = None\<close> is not reached and the error goes to the caller.
\<close>

definition disconnect ::
  "(sio_client \<Rightarrow> py_error option \<times> sio_client) \<Rightarrow> ClientBase \<Rightarrow> py_error option \<times> ClientBase" where
  "disconnect sio_disconnect c =
     (case sio c of
        None \<Rightarrow> (None, c)
      | Some s \<Rightarrow>
          if sio_connected s
          then (case sio_disconnect s of
                  (Some e, s') \<Rightarrow> (Some e, c\<lparr>sio := Some s'\<rparr>)
                | (None, s') \<Rightarrow> (None, c\<lparr>sio := None\<rparr>))
          else (None, c))"

text \<open>
  The decorator \<open>handle_socketio_error\<close>, applied to the outcome of the wrapped call:
  a SocketIOError becomes a ConnectionError, anything else passes.
\<close>

definition handle_socketio_error :: "py_error option \<Rightarrow> py_error option" where
  "handle_socketio_error outcome =
     (case outcome of
        Some (SocketIOError e) \<Rightarrow>
          if str_in ''ConnectionResetError'' e \<and> str_in ''Connection reset by peer'' e
          then Some (ConnectionError (''Connection error, check url and server state: '' @ e))
          else Some (ConnectionError e)
      | other \<Rightarrow> other)"

text \<open>
  \<open>ClientBase.connect(url)\<close>, that is \<open>_connect(self, url)\<close> of the function
  \<open>connect\<close>. A client that has no transport object gets a fresh one (not connected)
  and registers its callbacks on it: \<open>callbacks\<close> is what the subclass's
  \<open>callbacks()\<close> does there, the error it raises, if any. Then \<open>self.sio.connect\<close>
  is called with the url and the auth data, under \<open>handle_socketio_error\<close>.
\<close>

definition connect ::
  "(sio_client \<Rightarrow> string \<Rightarrow> pyval \<Rightarrow> py_error option \<times> sio_client) \<Rightarrow> py_error option
     \<Rightarrow> ClientBase \<Rightarrow> string option \<Rightarrow> py_error option \<times> ClientBase" where
  "connect sio_connect callbacks c url =
     (if \<not> connected c
      then (case (case sio c of
                    None \<Rightarrow> (callbacks, \<lparr>sio_connected = False\<rparr>)
                  | Some s0 \<Rightarrow> (None, s0)) of
              (Some e, s) \<Rightarrow> (Some e, c\<lparr>sio := Some s\<rparr>)
            | (None, s) \<Rightarrow>
                (let c1 = (case url of
                             None \<Rightarrow> c\<lparr>sio := Some s\<rparr>
                           | Some u \<Rightarrow> c\<lparr>sio := Some s, server_url := u\<rparr>)
                 in case sio_connect s (server_url c1) (auth_data c1) of
                      (outcome, s') \<Rightarrow> (handle_socketio_error outcome, c1\<lparr>sio := Some s'\<rparr>)))
      else (None, c))"

text \<open>
  \<open>value[:-4]\<close>: a str or a list loses its last four items (all of them when it has
  fewer); any other value of the model does not support slicing (TypeError).
\<close>

fun slice_to_minus4 :: "pyval \<Rightarrow> py_error + pyval" where
  "slice_to_minus4 (PStr s) = Inr (PStr (take (length s - 4) s))"
| "slice_to_minus4 (PList xs) = Inr (PList (take (length xs - 4) xs))"
| "slice_to_minus4 v = Inl TypeError"

text \<open>
  The dict comprehension of \<open>handle_response\<close>'s wrapper, item by item:
  \<open>{key: (value[:-4] if key == 'event' else value) for key, value in data.items()}\<close>
\<close>

fun strip_event_items :: "(string \<times> pyval) list \<Rightarrow> py_error + (string \<times> pyval) list" where
  "strip_event_items [] = Inr []"
| "strip_event_items ((k, v) # kvs) =
     (case (if k = ''event'' then slice_to_minus4 v else Inr v) of
        Inl e \<Rightarrow> Inl e
      | Inr v' \<Rightarrow>
          (case strip_event_items kvs of
             Inl e \<Rightarrow> Inl e
           | Inr r \<Rightarrow> Inr ((k, v') # r)))"

text \<open>
  The wrapper that \<open>handle_response\<close> registers on \<open>name + '_rsp'\<close>. It returns the
  error it raises, if any, and the client as it leaves it. \<open>data.items()\<close> on a value
  that is no dict raises AttributeError.
\<close>

definition handle_response_wrapper :: "ClientBase \<Rightarrow> pyval \<Rightarrow> py_error option \<times> ClientBase" where
  "handle_response_wrapper c d =
     (case d of
        PDict kvs \<Rightarrow>
          (case strip_event_items kvs of
             Inl e \<Rightarrow> (Some e, c)
           | Inr rsp_data \<Rightarrow>
               (case Rsp_from_dict (PDict rsp_data) of
                  Inl e \<Rightarrow> (Some e, c)
                | Inr r \<Rightarrow> (None, c\<lparr>rsp := Some r, rsp_event := True\<rparr>)))
      | _ \<Rightarrow> (Some AttributeError, c))"

text \<open>
  \<open>_get_response\<close>, run on the client as it is when \<open>rsp_event.wait(timeout)\<close>
  comes back: the flag is set if a response arrived within the timeout. The
  \<open>finally\<close> clause raises ResponseTimeoutError whether \<open>disconnect\<close> returned
  or raised: an error of \<open>disconnect\<close> is replaced by it.
\<close>

definition get_response ::
  "(sio_client \<Rightarrow> py_error option \<times> sio_client) \<Rightarrow> ClientBase
     \<Rightarrow> (py_error + Rsp option) \<times> ClientBase" where
  "get_response sio_disconnect c =
     (if \<not> rsp_event c
      then (case disconnect sio_disconnect c of
              (outcome, c') \<Rightarrow> (Inl (ResponseTimeoutError ''Response timeout''), c'))
      else (Inr (rsp c), c\<lparr>rsp_event := False\<rparr>))"

text \<open>
  \<open>exception_map.get(exception.name)\<close>: the keys are class names; a list or dict (or an
  unfrozen dataclass or model instance) is unhashable.
\<close>

fun exception_map_get ::
  "(string \<times> exception_class) list \<Rightarrow> pyval \<Rightarrow> py_error + exception_class option" where
  "exception_map_get m (PStr s) = Inr (map_of m s)"
| "exception_map_get m PNone = Inr None"
| "exception_map_get m (PBool b) = Inr None"
| "exception_map_get m (PInt i) = Inr None"
| "exception_map_get m (PFloat w) = Inr None"
| "exception_map_get m v = Inl TypeError"

text \<open>
  \<open>verify_response\<close>; it has no return statement, so it returns None. The call
  \<open>exception_class(exception.message)\<close> may raise; the two attribute assignments on
  the new exception instance do not.
\<close>

definition verify_response ::
  "(pyval \<Rightarrow> string) \<Rightarrow> (string \<times> exception_class) list \<Rightarrow> Rsp \<Rightarrow> py_error + pyval" where
  "verify_response str_other emap r =
     (if status r \<noteq> PStr SUCCESS
      then (case SerializableException_from_dict (data r) of
              Inl e \<Rightarrow> Inl e
            | Inr exception \<Rightarrow>
                (case exception_map_get emap (name exception) of
                   Inl e \<Rightarrow> Inl e
                 | Inr (Some exception_class) \<Rightarrow>
                     (case cls_init exception_class (message exception) of
                        Some e \<Rightarrow> Inl e
                      | None \<Rightarrow>
                          Inl (Mapped (cls_name exception_class) (message exception)
                                 (tb exception) (event r)))
                 | Inr None \<Rightarrow>
                     Inl (ResponseError
                            (''Error: '' @ py_str str_other (name exception)
                               @ '', message: '' @ py_str str_other (message exception)
                               @ '', event: '' @ py_str str_other (event r))
                            (tb exception))))
      else Inr PNone)"

text \<open>
  \<open>_get_and_verify_response\<close>: when the slot holds None, reading \<open>rsp.status\<close> raises
  AttributeError.
\<close>

definition get_and_verify_response ::
  "(sio_client \<Rightarrow> py_error option \<times> sio_client) \<Rightarrow> (pyval \<Rightarrow> string) \<Rightarrow> ClientBase
     \<Rightarrow> (py_error + Rsp) \<times> ClientBase" where
  "get_and_verify_response sio_disconnect str_other c =
     (case get_response sio_disconnect c of
        (Inl e, c') \<Rightarrow> (Inl e, c')
      | (Inr None, c') \<Rightarrow> (Inl AttributeError, c')
      | (Inr (Some r), c') \<Rightarrow>
          (case verify_response str_other (exception_map c') r of
             Inl e \<Rightarrow> (Inl e, c')
           | Inr _ \<Rightarrow> (Inr r, c')))"

section \<open>Server: dispatcher\<close>

text \<open>
  What a registered handler does when called: it returns a \<open>Rsp\<close> object (the wrapper
  assigns its \<open>event\<close> and calls its \<open>to_dict\<close>), or raises. For a raised exception
  the record holds \<open>e.__class__.__name__\<close>, \<open>str(e)\<close>, the text of
  \<open>traceback.format_exc()\<close>, and whether the class derives from \<open>Exception\<close> (SystemExit,
  KeyboardInterrupt and GeneratorExit do not).
\<close>

record raised =
  exc_class_name :: string
  exc_str :: string
  exc_format :: string
  exc_is_Exception :: bool

datatype handler_outcome = Returns Rsp | Raises raised

text \<open>A call \<open>sio.emit(event, data=..., to=sid)\<close>, as the transport records it.\<close>

record emission =
  em_event :: pyval
  em_data :: pyval
  em_to :: string

text \<open>
  The wrapper that \<open>handle_request\<close> registers on \<open>name + '_req'\<close>, with the list of
  emissions made so far. \<open>Req.from_dict\<close> and \<open>get_rsp_event\<close> run outside the
  \<open>try\<close>; \<open>except Exception\<close> catches the instances of \<open>Exception\<close> only. The
  transport's \<open>emit\<close> is taken to return normally.
\<close>

definition handle_request_wrapper ::
  "(pyval \<Rightarrow> string) \<Rightarrow> (pyval \<Rightarrow> string) \<Rightarrow> (string \<Rightarrow> pyval \<Rightarrow> pyval \<Rightarrow> handler_outcome)
     \<Rightarrow> string \<Rightarrow> pyval \<Rightarrow> emission list \<Rightarrow> py_error option \<times> emission list" where
  "handle_request_wrapper str_other to_json func sid d out =
     (case Req_from_dict d of
        Inl e \<Rightarrow> (Some e, out)
      | Inr req \<Rightarrow>
          (case (case func sid (req_event req) (req_data req) of
                   Returns r \<Rightarrow> Inr r
                 | Raises x \<Rightarrow>
                     if exc_is_Exception x
                     then Inr \<lparr>status = PStr ERROR, event = PNone,
                               data = SerializableException_to_dict
                                        \<lparr>name = PStr (exc_class_name x),
                                         message = PStr (exc_str x),
                                         tb = PStr (exc_format x)\<rparr>\<rparr>
                     else Inl (Propagated (exc_class_name x) (exc_str x))) of
             Inl e \<Rightarrow> (Some e, out)
           | Inr r \<Rightarrow>
               (case get_rsp_event (req_event req) of
                  Inl e \<Rightarrow> (Some e, out)
                | Inr ev \<Rightarrow>
                    (None, out @ [\<lparr>em_event = ev,
                                   em_data = Rsp_to_dict str_other to_json (r\<lparr>event := ev\<rparr>),
                                   em_to = sid\<rparr>]))))"

text \<open>
  The \<open>connect\<close> handler of \<open>ServerBase.connection_callbacks\<close>:
  \<open>if auth != self.auth_key: raise ConnectionRefusedError\<close>. The key is an
  \<open>Optional[str]\<close>, \<open>optional_str\<close> is its value; a str or None equals no value
  of the model but itself.
\<close>

definition optional_str :: "string option \<Rightarrow> pyval" where
  "optional_str x = (case x of None \<Rightarrow> PNone | Some s \<Rightarrow> PStr s)"

definition connect_handler :: "string option \<Rightarrow> string \<Rightarrow> pyval \<Rightarrow> py_error option" where
  "connect_handler auth_key sid auth =
     (if auth \<noteq> optional_str auth_key
      then Some (ConnectionRefusedError ''Authentication failed'')
      else None)"

text \<open>
  Modelled from the spec: the session admission of the transport (python-socketio,
  which is no file of the repository). The spec takes the transport as a collaborator
  that notifies on connect and dispatches named events to registered handlers, and
  says that an auth rejection on the server prevents the connection from completing.
  So: a connection attempt of the session \<open>sid\<close> calls the \<open>connect\<close> handler; when
  the handler raises, the session is dropped and the error is the refusal, otherwise
  the session is admitted; an inbound request event reaches the registered handler
  only when its session is admitted, and is ignored otherwise.
\<close>

record sio_server =
  sessions :: "string list"

text \<open>
  Modelled from the spec: a connection attempt of the session \<open>sid\<close> with the auth
  payload \<open>auth\<close>, as the transport runs it around the \<open>connect\<close> handler of the
  source (the transport's code is not in the repository).
\<close>

definition server_on_connect ::
  "string option \<Rightarrow> sio_server \<Rightarrow> string \<Rightarrow> pyval \<Rightarrow> py_error option \<times> sio_server" where
  "server_on_connect auth_key srv sid auth =
     (case connect_handler auth_key sid auth of
        Some e \<Rightarrow> (Some e, srv\<lparr>sessions := removeAll sid (sessions srv)\<rparr>)
      | None \<Rightarrow> (None, srv\<lparr>sessions := sid # removeAll sid (sessions srv)\<rparr>))"

text \<open>
  Modelled from the spec: the dispatch of an inbound request event of the session
  \<open>sid\<close> to the wrapper that \<open>handle_request\<close> registered, as the transport does it
  (the transport's code is not in the repository).
\<close>

definition server_on_event ::
  "(pyval \<Rightarrow> string) \<Rightarrow> (pyval \<Rightarrow> string) \<Rightarrow> (string \<Rightarrow> pyval \<Rightarrow> pyval \<Rightarrow> handler_outcome)
     \<Rightarrow> sio_server \<Rightarrow> string \<Rightarrow> pyval \<Rightarrow> emission list \<Rightarrow> py_error option \<times> emission list" where
  "server_on_event str_other to_json func srv sid d out =
     (if sid \<in> set (sessions srv)
      then handle_request_wrapper str_other to_json func sid d out
      else (None, out))"

section \<open>Certificates\<close>

text \<open>
  The objects of the \<open>cryptography\<close> library as far as the code builds and reads
  them. A private key is what \<open>rsa.generate_private_key\<close> was asked for, and the
  random material it drew.
\<close>

record rsa_private_key =
  key_size :: nat
  public_exponent :: nat
  key_material :: nat

definition generate_private_key :: "nat \<Rightarrow> nat \<Rightarrow> nat \<Rightarrow> rsa_private_key" where
  "generate_private_key e k entropy = \<lparr>key_size = k, public_exponent = e, key_material = entropy\<rparr>"

datatype general_name = DNSName string | IPAddress string

datatype extension =
    BasicConstraints bool "nat option"
  | SubjectAlternativeName "general_name list"

datatype hash_algorithm = SHA256 | SHA1

text \<open>
  A signed certificate holds what the \<open>CertificateBuilder\<close> was given: the common name
  of subject and issuer, the key whose public half it certifies, the serial number,
  the validity in seconds since the epoch, the extensions with their \<open>critical\<close> flag,
  and the key and digest of the signature.
\<close>

record certificate =
  subject_name :: string
  issuer_name :: string
  public_key_of :: rsa_private_key
  serial_number :: nat
  not_valid_before :: int
  not_valid_after :: int
  extensions :: "(extension \<times> bool) list"
  signing_key :: rsa_private_key
  signature_hash :: hash_algorithm

text \<open>
  The content of a file: the PEM encoding of a certificate, that of a private key
  (TraditionalOpenSSL, unencrypted), or any other bytes.
\<close>

datatype bytes = CertPem certificate | KeyPem rsa_private_key | Raw string

definition timedelta_days :: "int \<Rightarrow> int" where
  "timedelta_days d = d * 86400"

text \<open>
  The two constructors of the library that check the text they are given.
  \<open>x509.NameAttribute(NameOID.COMMON_NAME, value)\<close> raises ValueError unless the
  value has 1 to 64 bytes in UTF-8 (a \<open>string\<close> here is its bytes);
  \<open>x509.DNSName(value)\<close> raises ValueError unless the value is ASCII.
\<close>

definition x509_NameAttribute_common_name :: "string \<Rightarrow> py_error + string" where
  "x509_NameAttribute_common_name v =
     (if length v < 1 \<or> 64 < length v
      then Inl (ValueError (''Attribute's length must be >= 1 and <= 64, but it was ''
                              @ str_nat (length v)))
      else Inr v)"

definition x509_DNSName :: "string \<Rightarrow> py_error + general_name" where
  "x509_DNSName v =
     (if list_all (\<lambda>c. of_char c < (128 :: nat)) v
      then Inr (DNSName v)
      else Inl (ValueError (''DNSName values should be passed as an A-label string. ''
                              @ ''This means unicode characters should be encoded via ''
                              @ ''a library like idna.'')))"

text \<open>\<open>[x509.DNSName(ip) for ip in ip_addresses]\<close>, left to right.\<close>

fun x509_DNSNames :: "string list \<Rightarrow> py_error + general_name list" where
  "x509_DNSNames [] = Inr []"
| "x509_DNSNames (v # vs) =
     (case x509_DNSName v of
        Inl e \<Rightarrow> Inl e
      | Inr g \<Rightarrow>
          (case x509_DNSNames vs of
             Inl e \<Rightarrow> Inl e
           | Inr gs \<Rightarrow> Inr (g # gs)))"

text \<open>
  \<open>generate_selfsigned_cert\<close>. The entropy of a fresh key, the random serial number
  and the clock (\<open>datetime.now(UTC)\<close>, a date the builder accepts) come from the
  environment.
\<close>

definition generate_selfsigned_cert ::
  "nat \<Rightarrow> nat \<Rightarrow> int \<Rightarrow> string \<Rightarrow> string list option \<Rightarrow> rsa_private_key option
     \<Rightarrow> py_error + bytes \<times> bytes" where
  "generate_selfsigned_cert entropy serial now hostname ip_addresses key_opt =
     (let key = (case key_opt of
                   None \<Rightarrow> generate_private_key 65537 4096 entropy
                 | Some k \<Rightarrow> k)
      in case x509_NameAttribute_common_name hostname of
           Inl e \<Rightarrow> Inl e
         | Inr common_name \<Rightarrow>
             (case x509_DNSName hostname of
                Inl e \<Rightarrow> Inl e
              | Inr host \<Rightarrow>
                  (case (case ip_addresses of
                           None \<Rightarrow> Inr []
                         | Some ips \<Rightarrow> if ips \<noteq> [] then x509_DNSNames ips else Inr []) of
                     Inl e \<Rightarrow> Inl e
                   | Inr extra \<Rightarrow>
                       (let alt_names = [host] @ extra;
                            san = SubjectAlternativeName alt_names;
                            basic_constraints = BasicConstraints True (Some 0);
                            cert = \<lparr>subject_name = common_name,
                                    issuer_name = common_name,
                                    public_key_of = key,
                                    serial_number = serial,
                                    not_valid_before = now,
                                    not_valid_after = now + timedelta_days (365 * 10),
                                    extensions = [(basic_constraints, False), (san, False)],
                                    signing_key = key,
                                    signature_hash = SHA256\<rparr>
                        in Inr (CertPem cert, KeyPem key)))))"

text \<open>
  \<open>get_dns_names_from_cert\<close>: \<open>load_pem_x509_certificate\<close> raises ValueError on bytes
  that are no PEM certificate (its message is cut to the first sentence here),
  \<open>get_extension_for_class\<close> raises ExtensionNotFound when the certificate has no SAN
  extension.
\<close>

fun dns_values :: "general_name list \<Rightarrow> string list" where
  "dns_values [] = []"
| "dns_values (DNSName n # gs) = n # dns_values gs"
| "dns_values (IPAddress a # gs) = dns_values gs"

fun find_san :: "(extension \<times> bool) list \<Rightarrow> general_name list option" where
  "find_san [] = None"
| "find_san ((SubjectAlternativeName gs, c) # es) = Some gs"
| "find_san ((BasicConstraints ca pl, c) # es) = find_san es"

definition get_dns_names_from_cert :: "bytes \<Rightarrow> py_error + string list" where
  "get_dns_names_from_cert pem_cert_data =
     (case pem_cert_data of
        CertPem cert \<Rightarrow>
          (case find_san (extensions cert) of
             None \<Rightarrow> Inl ExtensionNotFound
           | Some gs \<Rightarrow> Inr (dns_values gs))
      | _ \<Rightarrow> Inl (ValueError ''Unable to load PEM file''))"

section \<open>File system\<close>

text \<open>
  A path is the list of its components below the root of the tree (the empty list is
  that root, a directory that always exists); the tree maps a path to a file with its
  bytes or to a directory.
\<close>

type_synonym path = "string list"

datatype node = File bytes | Dir

type_synonym filesystem = "path \<Rightarrow> node option"

definition parent :: "path \<Rightarrow> path" where
  "parent p = butlast p"

text \<open>
  Walking down the components \<open>cs\<close> from the directory \<open>pre\<close>: ENOENT at the first
  missing component, ENOTDIR at the first that is a file.
\<close>

fun walk :: "filesystem \<Rightarrow> path \<Rightarrow> path \<Rightarrow> py_error option" where
  "walk t pre [] = None"
| "walk t pre (c # cs) =
     (case t (pre @ [c]) of
        None \<Rightarrow> Some FileNotFoundError
      | Some (File b) \<Rightarrow> Some NotADirectoryError
      | Some Dir \<Rightarrow> walk t (pre @ [c]) cs)"

definition path_exists :: "filesystem \<Rightarrow> path \<Rightarrow> bool" where
  "path_exists t p = (p = [] \<or> (walk t [] (parent p) = None \<and> t p \<noteq> None))"

definition is_dir :: "filesystem \<Rightarrow> path \<Rightarrow> bool" where
  "is_dir t p = (p = [] \<or> (walk t [] (parent p) = None \<and> t p = Some Dir))"

definition read_bytes :: "filesystem \<Rightarrow> path \<Rightarrow> py_error + bytes" where
  "read_bytes t p =
     (if p = [] then Inl IsADirectoryError
      else case walk t [] (parent p) of
             Some e \<Rightarrow> Inl e
           | None \<Rightarrow>
               (case t p of
                  None \<Rightarrow> Inl FileNotFoundError
                | Some Dir \<Rightarrow> Inl IsADirectoryError
                | Some (File b) \<Rightarrow> Inr b))"

definition write_bytes :: "filesystem \<Rightarrow> path \<Rightarrow> bytes \<Rightarrow> py_error + filesystem" where
  "write_bytes t p b =
     (if p = [] then Inl IsADirectoryError
      else case walk t [] (parent p) of
             Some e \<Rightarrow> Inl e
           | None \<Rightarrow>
               (case t p of
                  Some Dir \<Rightarrow> Inl IsADirectoryError
                | _ \<Rightarrow> Inr (t(p \<mapsto> File b))))"

definition os_mkdir :: "filesystem \<Rightarrow> path \<Rightarrow> py_error + filesystem" where
  "os_mkdir t p =
     (if p = [] then Inl FileExistsError
      else case walk t [] (parent p) of
             Some e \<Rightarrow> Inl e
           | None \<Rightarrow>
               (case t p of
                  None \<Rightarrow> Inr (t(p \<mapsto> Dir))
                | Some n \<Rightarrow> Inl FileExistsError))"

text \<open>
  \<open>Path.mkdir\<close>: \<open>os.mkdir\<close>; with \<open>parents\<close>, on ENOENT the parent is made first
  (\<open>parents=True, exist_ok=True\<close>) and the call repeated without \<open>parents\<close>; with
  \<open>exist_ok\<close>, any other OSError is dropped when the path is a directory. Both return
  the error raised, if any, and the tree as it is left.
\<close>

definition mkdir_exist_ok :: "filesystem \<Rightarrow> path \<Rightarrow> py_error option \<times> filesystem" where
  "mkdir_exist_ok t p =
     (case os_mkdir t p of
        Inr t' \<Rightarrow> (None, t')
      | Inl e \<Rightarrow>
          if e = FileNotFoundError then (Some e, t)
          else if is_dir t p then (None, t) else (Some e, t))"

function mkdir_parents :: "filesystem \<Rightarrow> path \<Rightarrow> py_error option \<times> filesystem" where
  "mkdir_parents t p =
     (case os_mkdir t p of
        Inr t' \<Rightarrow> (None, t')
      | Inl e \<Rightarrow>
          if e = FileNotFoundError then
            (if parent p = p then (Some e, t)
             else case mkdir_parents t (parent p) of
                    (Some e', t1) \<Rightarrow> (Some e', t1)
                  | (None, t1) \<Rightarrow> mkdir_exist_ok t1 p)
          else if is_dir t p then (None, t) else (Some e, t))"
  by pat_completeness auto
termination
proof (relation "measure (\<lambda>(t, p). length p)")
  show "wf (measure (\<lambda>(t, p). length p))" by simp
next
  fix t :: filesystem and p :: path and e :: py_error
  assume "parent p \<noteq> p"
  then have "p \<noteq> []" by (auto simp: parent_def)
  then show "((t, parent p), (t, p)) \<in> measure (\<lambda>(t, p). length p)"
    by (simp add: parent_def)
qed

text \<open>
  The tree \<open>t\<close> with a directory at every path on the way down to \<open>p\<close>, \<open>p\<close>
  included: what \<open>mkdir_parents\<close> leaves when no file is in the way.
\<close>

definition with_dirs :: "filesystem \<Rightarrow> path \<Rightarrow> filesystem" where
  "with_dirs t p = (\<lambda>q. if q \<noteq> [] \<and> prefix q p then Some Dir else t q)"

text \<open>
  \<open>generate_new_cert\<close>: it returns the error it raises, if any, and the tree as it
  leaves it; an error of \<open>generate_selfsigned_cert\<close> comes before any file is
  touched. \<open>__init__\<close> passes its \<open>keyfile_path\<close>, which may be None; the attribute
  \<open>write_bytes\<close> of None raises AttributeError.
\<close>

definition generate_new_cert ::
  "nat \<Rightarrow> nat \<Rightarrow> int \<Rightarrow> filesystem \<Rightarrow> path \<Rightarrow> path option \<Rightarrow> string \<Rightarrow> py_error option \<times> filesystem" where
  "generate_new_cert entropy serial now t certfile_path keyfile_path hostname =
     (case generate_selfsigned_cert entropy serial now hostname None None of
        Inl e \<Rightarrow> (Some e, t)
      | Inr (cert_pem, key_pem) \<Rightarrow>
          (case mkdir_parents t (parent certfile_path) of
             (Some e, t1) \<Rightarrow> (Some e, t1)
           | (None, t1) \<Rightarrow>
               (case write_bytes t1 certfile_path cert_pem of
                  Inl e \<Rightarrow> (Some e, t1)
                | Inr t2 \<Rightarrow>
                    (case keyfile_path of
                       None \<Rightarrow> (Some AttributeError, t2)
                     | Some kp \<Rightarrow>
                         (case write_bytes t2 kp key_pem of
                            Inl e \<Rightarrow> (Some e, t2)
                          | Inr t3 \<Rightarrow> (None, t3))))))"

section \<open>Server construction\<close>

record ServerBase =
  hostname :: "string option"
  port :: "int option"
  certfile_path :: "path option"
  keyfile_path :: "path option"
  auth_key :: "string option"

text \<open>Truth value of an \<open>Optional[str]\<close> and of an \<open>Optional[int]\<close>.\<close>

definition truthy_str :: "string option \<Rightarrow> bool" where
  "truthy_str x = (case x of None \<Rightarrow> False | Some s \<Rightarrow> s \<noteq> [])"

definition truthy_int :: "int option \<Rightarrow> bool" where
  "truthy_int x = (case x of None \<Rightarrow> False | Some i \<Rightarrow> i \<noteq> 0)"

text \<open>
  The first part of \<open>ServerBase.__init__\<close>: the host name and port, given or read
  from the url. \<open>url_hostname\<close> and \<open>url_port\<close> stand for \<open>urlparse(url).hostname\<close> and
  \<open>urlparse(url).port\<close> of the standard library, which may raise ValueError. The
  second \<open>if url\<close>, in the \<open>else\<close> branch of the first, never holds. Where the
  url is truthy it is not None, so \<open>the url\<close> is the str itself.
\<close>

definition init_address ::
  "(string \<Rightarrow> py_error + string option) \<Rightarrow> (string \<Rightarrow> py_error + int option)
     \<Rightarrow> string option \<Rightarrow> int option \<Rightarrow> string option \<Rightarrow> py_error + (string option \<times> int option)" where
  "init_address url_hostname url_port hostname_arg port_arg url =
     (case (if truthy_str url then
              (if truthy_str hostname_arg \<or> truthy_int port_arg
               then Inl (ValueError ''You cannot specify both URL and hostname or port'')
               else (case url_hostname (the url) of
                       Inl e \<Rightarrow> Inl e
                     | Inr h \<Rightarrow>
                         (case url_port (the url) of
                            Inl e \<Rightarrow> Inl e
                          | Inr p \<Rightarrow> Inr (h, p))))
            else
              (if truthy_str url
               then Inl (ValueError ''You cannot specify both URL and hostname or port'')
               else Inr (hostname_arg, port_arg))) of
        Inl e \<Rightarrow> Inl e
      | Inr (h, p) \<Rightarrow>
          if \<not> truthy_str h \<or> \<not> truthy_int p
          then Inl (ValueError ''Both hostname and port must be specified either directly or via the URL'')
          else Inr (h, p))"

text \<open>
  The \<open>if generate_cert:\<close> block of \<open>ServerBase.__init__\<close>, for the host name \<open>h\<close>
  that the first part has set (a non-empty str, or the constructor has raised):
  \<open>exists\<close> and \<open>read_bytes\<close> of a path that is None raise AttributeError.
\<close>

definition init_certificate ::
  "nat \<Rightarrow> nat \<Rightarrow> int \<Rightarrow> filesystem \<Rightarrow> path option \<Rightarrow> path option \<Rightarrow> string
     \<Rightarrow> py_error option \<times> filesystem" where
  "init_certificate entropy serial now t certfile keyfile h =
     (case certfile of
        None \<Rightarrow> (Some AttributeError, t)
      | Some cp \<Rightarrow>
          if \<not> path_exists t cp
          then generate_new_cert entropy serial now t cp keyfile h
          else (case keyfile of
                  None \<Rightarrow> (Some AttributeError, t)
                | Some kp \<Rightarrow>
                    if \<not> path_exists t kp
                    then generate_new_cert entropy serial now t cp keyfile h
                    else (case read_bytes t cp of
                            Inl e \<Rightarrow> (Some e, t)
                          | Inr pem \<Rightarrow>
                              (case get_dns_names_from_cert pem of
                                 Inl e \<Rightarrow> (Some e, t)
                               | Inr dns_names \<Rightarrow>
                                   if h \<notin> set dns_names
                                   then generate_new_cert entropy serial now t cp keyfile h
                                   else (None, t)))))"

definition ServerBase_init ::
  "(string \<Rightarrow> py_error + string option) \<Rightarrow> (string \<Rightarrow> py_error + int option)
     \<Rightarrow> nat \<Rightarrow> nat \<Rightarrow> int \<Rightarrow> filesystem
     \<Rightarrow> string option \<Rightarrow> int option \<Rightarrow> string option \<Rightarrow> path option \<Rightarrow> path option
     \<Rightarrow> bool \<Rightarrow> string option \<Rightarrow> (py_error + ServerBase) \<times> filesystem" where
  "ServerBase_init url_hostname url_port entropy serial now t
       hostname_arg port_arg url certfile keyfile generate_cert auth =
     (case init_address url_hostname url_port hostname_arg port_arg url of
        Inl e \<Rightarrow> (Inl e, t)
      | Inr (h, p) \<Rightarrow>
          (let self = \<lparr>hostname = h, port = p, certfile_path = certfile,
                       keyfile_path = keyfile, auth_key = auth\<rparr>
           in if generate_cert
              then (case init_certificate entropy serial now t certfile keyfile (the h) of
                      (Some e, t') \<Rightarrow> (Inl e, t')
                    | (None, t') \<Rightarrow> (Inr self, t'))
              else (Inr self, t)))"

section \<open>Auxiliary facts\<close>

lemma plain_asdict_inner: "plain v \<Longrightarrow> asdict_inner v = v"
proof (induction v)
  case (PList xs)
  then show ?case by (simp add: list_all_iff map_idI)
next
  case (PDict kvs)
  have "map (map_prod id asdict_inner) kvs = kvs"
  proof (rule map_idI)
    fix kv assume m: "kv \<in> set kvs"
    obtain k v where kv: "kv = (k, v)" by (cases kv)
    from PDict.prems m kv have "plain v" by (auto simp: list_all_iff)
    moreover from m kv have "v \<in> Basic_BNFs.snds kv" by simp
    ultimately have "asdict_inner v = v" using PDict.IH m by blast
    then show "map_prod id asdict_inner kv = kv" by (simp add: kv)
  qed
  then show ?case by simp
qed simp_all

lemma plain_not_serializable: "plain v \<Longrightarrow> \<not> is_serializable v"
  by (cases v) simp_all

lemma Req_from_dict_pair:
  "Req_from_dict (PDict [(''event'', e), (''data'', x)]) = Inr \<lparr>req_event = e, req_data = x\<rparr>"
  by (simp add: Req_from_dict_def bind_kwargs_def)

lemma Rsp_from_dict_triple:
  "Rsp_from_dict (PDict [(''status'', s), (''event'', e), (''data'', x)])
     = Inr \<lparr>status = s, event = e, data = x\<rparr>"
  by (simp add: Rsp_from_dict_def bind_kwargs_def)

lemma SerializableException_from_dict_triple:
  "SerializableException_from_dict (PDict [(''name'', n), (''message'', m), (''tb'', t)])
     = Inr \<lparr>name = n, message = m, tb = t\<rparr>"
  by (simp add: SerializableException_from_dict_def bind_kwargs_def)

lemma Req_roundtrip_plain:
  assumes "plain (req_event r)" and "plain (req_data r)"
  shows "Req_from_dict (Req_to_dict so tj r) = Inr r"
  using assms
  by (simp add: Req_to_dict_def plain_not_serializable plain_asdict_inner Req_from_dict_pair)

lemma Rsp_roundtrip_plain:
  assumes "plain (status r)" and "plain (event r)" and "plain (data r)"
  shows "Rsp_from_dict (Rsp_to_dict so tj r) = Inr r"
  using assms
  by (simp add: Rsp_to_dict_def plain_not_serializable plain_asdict_inner Rsp_from_dict_triple)

lemma Req_roundtrip_serializable:
  assumes "is_serializable (req_data r)"
  shows "Req_from_dict (Req_to_dict so tj r)
           = Inr \<lparr>req_event = PStr (py_str so (req_event r)), req_data = PStr (tj (req_data r))\<rparr>"
  using assms by (simp add: Req_to_dict_def Req_from_dict_pair)

lemma Rsp_roundtrip_serializable:
  assumes "is_serializable (data r)"
  shows "Rsp_from_dict (Rsp_to_dict so tj r)
           = Inr \<lparr>status = status r, event = PStr (py_str so (event r)), data = PStr (tj (data r))\<rparr>"
  using assms by (simp add: Rsp_to_dict_def Rsp_from_dict_triple)

lemma handler_wrapper_returns:
  assumes "Req_from_dict d = Inr req" and "req_event req = PStr E"
    and "func sid (req_event req) (req_data req) = Returns r"
  shows "handle_request_wrapper so tj func sid d out =
           (None, out @ [\<lparr>em_event = PStr (E @ ''_rsp''),
                          em_data = Rsp_to_dict so tj (r\<lparr>event := PStr (E @ ''_rsp'')\<rparr>),
                          em_to = sid\<rparr>])"
  using assms by (simp add: handle_request_wrapper_def)

lemma handler_wrapper_raises:
  assumes "Req_from_dict d = Inr req" and "req_event req = PStr E"
    and "func sid (req_event req) (req_data req) = Raises x" and "exc_is_Exception x"
  shows "handle_request_wrapper so tj func sid d out =
           (None, out @ [\<lparr>em_event = PStr (E @ ''_rsp''),
                          em_data = PDict [(''status'', PStr ERROR),
                                           (''event'', PStr (E @ ''_rsp'')),
                                           (''data'', PDict [(''name'', PStr (exc_class_name x)),
                                                             (''message'', PStr (exc_str x)),
                                                             (''tb'', PStr (exc_format x))])],
                          em_to = sid\<rparr>])"
  using assms
  by (simp add: handle_request_wrapper_def Rsp_to_dict_def SerializableException_to_dict_def)

lemma handler_wrapper_propagates:
  assumes "Req_from_dict d = Inr req"
    and "func sid (req_event req) (req_data req) = Raises x" and "\<not> exc_is_Exception x"
  shows "handle_request_wrapper so tj func sid d out =
           (Some (Propagated (exc_class_name x) (exc_str x)), out)"
  using assms by (simp add: handle_request_wrapper_def)

lemma bind_kwargs_Inr_iff:
  "(\<exists>f. bind_kwargs req opt d = Inr f) \<longleftrightarrow>
     (\<exists>kvs. d = PDict kvs \<and> set (map fst kvs) \<subseteq> set (req @ opt) \<and> set req \<subseteq> set (map fst kvs))"
  by (cases d) (auto simp: bind_kwargs_def list_all_iff)

lemma bind_kwargs_Inl: "bind_kwargs req opt d = Inl e \<Longrightarrow> e = TypeError"
  by (cases d) (auto simp: bind_kwargs_def split: if_splits)

lemma Req_from_dict_Inr_iff:
  "(\<exists>r. Req_from_dict d = Inr r) \<longleftrightarrow>
     (\<exists>kvs. d = PDict kvs \<and> set (map fst kvs) \<subseteq> {''event'', ''data''} \<and> ''event'' \<in> set (map fst kvs))"
proof -
  have "(\<exists>r. Req_from_dict d = Inr r) \<longleftrightarrow> (\<exists>f. bind_kwargs [''event''] [''data''] d = Inr f)"
    by (auto simp: Req_from_dict_def split: sum.splits)
  then show ?thesis unfolding bind_kwargs_Inr_iff by simp
qed

lemma Rsp_from_dict_Inr_iff:
  "(\<exists>r. Rsp_from_dict d = Inr r) \<longleftrightarrow>
     (\<exists>kvs. d = PDict kvs \<and> set (map fst kvs) \<subseteq> {''status'', ''event'', ''data''}
            \<and> ''status'' \<in> set (map fst kvs))"
proof -
  have "(\<exists>r. Rsp_from_dict d = Inr r) \<longleftrightarrow> (\<exists>f. bind_kwargs [''status''] [''event'', ''data''] d = Inr f)"
    by (auto simp: Rsp_from_dict_def split: sum.splits)
  then show ?thesis unfolding bind_kwargs_Inr_iff by simp
qed

lemma Req_from_dict_Inl: "Req_from_dict d = Inl e \<Longrightarrow> e = TypeError"
  by (auto simp: Req_from_dict_def split: sum.splits dest: bind_kwargs_Inl)

lemma Rsp_from_dict_Inl: "Rsp_from_dict d = Inl e \<Longrightarrow> e = TypeError"
  by (auto simp: Rsp_from_dict_def split: sum.splits dest: bind_kwargs_Inl)

lemma handle_response_wrapper_error_keeps_client:
  "handle_response_wrapper c d = (Some e, c') \<Longrightarrow> c' = c"
  by (auto simp: handle_response_wrapper_def split: pyval.splits sum.splits)

lemma handle_request_wrapper_decode_error:
  "Req_from_dict d = Inl e \<Longrightarrow> handle_request_wrapper so tj func sid d out = (Some e, out)"
  by (simp add: handle_request_wrapper_def)

lemma strip_event_items_no_event:
  "''event'' \<notin> set (map fst kvs) \<Longrightarrow> strip_event_items kvs = Inr kvs"
  by (induction kvs) auto

lemma strip_event_items_str:
  assumes "distinct (map fst kvs)" and "map_of kvs ''event'' = Some (PStr s)"
  shows "strip_event_items kvs
           = Inr (map (\<lambda>(k, v). (k, if k = ''event'' then PStr (take (length s - 4) s) else v)) kvs)"
  using assms
proof (induction kvs)
  case Nil
  then show ?case by simp
next
  case (Cons kv kvs)
  obtain k v where kv: "kv = (k, v)" by (cases kv)
  show ?case
  proof (cases "k = ''event''")
    case True
    with Cons.prems kv have v: "v = PStr s" and no: "''event'' \<notin> set (map fst kvs)"
      by auto
    from no have same: "map (\<lambda>(k, v). (k, if k = ''event'' then PStr (take (length s - 4) s) else v)) kvs = kvs"
      by (intro map_idI) (auto simp: rev_image_eqI)
    show ?thesis using True kv v same strip_event_items_no_event [OF no] by simp
  next
    case False
    with Cons.prems kv have "distinct (map fst kvs)" and "map_of kvs ''event'' = Some (PStr s)"
      by auto
    from Cons.IH [OF this] show ?thesis using False kv by simp
  qed
qed

lemma map_of_strip:
  "map_of (map (\<lambda>(k, v). (k, if k = ''event'' then w else v)) kvs) k'
     = (if k' = ''event'' then map_option (\<lambda>v. w) (map_of kvs k') else map_of kvs k')"
  by (induction kvs) auto

lemma map_fst_strip:
  "map fst (map (\<lambda>(k, v). (k, if k = ''event'' then w else v)) kvs) = map fst kvs"
  by (induction kvs) auto

lemma round_trip_through_handler:
  assumes "plain D" and "plain D'"
    and "func sid (PStr E) D = Returns \<lparr>status = PStr SUCCESS, event = ev0, data = D'\<rparr>"
  shows "handle_request_wrapper so tj func sid
            (Req_to_dict so tj \<lparr>req_event = PStr E, req_data = D\<rparr>) []
           = (None, [\<lparr>em_event = PStr (E @ ''_rsp''),
                       em_data = PDict [(''status'', PStr SUCCESS),
                                        (''event'', PStr (E @ ''_rsp'')),
                                        (''data'', D')],
                       em_to = sid\<rparr>])
         \<and> handle_response_wrapper c
            (PDict [(''status'', PStr SUCCESS), (''event'', PStr (E @ ''_rsp'')), (''data'', D')])
           = (None, c\<lparr>rsp := Some \<lparr>status = PStr SUCCESS, event = PStr E, data = D'\<rparr>,
                       rsp_event := True\<rparr>)
         \<and> fst (get_and_verify_response sd so
                (c\<lparr>rsp := Some \<lparr>status = PStr SUCCESS, event = PStr E, data = D'\<rparr>,
                   rsp_event := True\<rparr>))
           = Inr \<lparr>status = PStr SUCCESS, event = PStr E, data = D'\<rparr>"
proof -
  have dec: "Req_from_dict (Req_to_dict so tj \<lparr>req_event = PStr E, req_data = D\<rparr>)
               = Inr \<lparr>req_event = PStr E, req_data = D\<rparr>"
    using assms(1) by (simp add: Req_roundtrip_plain)
  have enc: "Rsp_to_dict so tj \<lparr>status = PStr SUCCESS, event = PStr (E @ ''_rsp''), data = D'\<rparr>
               = PDict [(''status'', PStr SUCCESS), (''event'', PStr (E @ ''_rsp'')), (''data'', D')]"
    using assms(2) by (simp add: Rsp_to_dict_def plain_not_serializable plain_asdict_inner)
  have server: "handle_request_wrapper so tj func sid
            (Req_to_dict so tj \<lparr>req_event = PStr E, req_data = D\<rparr>) []
           = (None, [\<lparr>em_event = PStr (E @ ''_rsp''),
                       em_data = PDict [(''status'', PStr SUCCESS),
                                        (''event'', PStr (E @ ''_rsp'')),
                                        (''data'', D')],
                       em_to = sid\<rparr>])"
    using handler_wrapper_returns [OF dec, of E func sid _ so tj "[]"] assms(3) enc
    by simp
  have client: "handle_response_wrapper c
            (PDict [(''status'', PStr SUCCESS), (''event'', PStr (E @ ''_rsp'')), (''data'', D')])
           = (None, c\<lparr>rsp := Some \<lparr>status = PStr SUCCESS, event = PStr E, data = D'\<rparr>,
                       rsp_event := True\<rparr>)"
    by (simp add: handle_response_wrapper_def Rsp_from_dict_triple)
  have verify: "fst (get_and_verify_response sd so
                (c\<lparr>rsp := Some \<lparr>status = PStr SUCCESS, event = PStr E, data = D'\<rparr>,
                   rsp_event := True\<rparr>))
           = Inr \<lparr>status = PStr SUCCESS, event = PStr E, data = D'\<rparr>"
    by (simp add: get_and_verify_response_def get_response_def verify_response_def)
  from server client verify show ?thesis by blast
qed

subsection \<open>Certificates and the file system\<close>

lemmas cert_eval_defs =
  generate_new_cert_def generate_selfsigned_cert_def generate_private_key_def timedelta_days_def
  x509_NameAttribute_common_name_def x509_DNSName_def
  parent_def os_mkdir_def mkdir_exist_ok_def write_bytes_def read_bytes_def is_dir_def
  path_exists_def Let_def

lemma dns_values_map_DNSName: "dns_values (map DNSName ns) = ns"
  by (induction ns) simp_all

lemma x509_DNSNames_ascii:
  "list_all (\<lambda>v. list_all (\<lambda>c. of_char c < (128 :: nat)) v) vs
     \<Longrightarrow> x509_DNSNames vs = Inr (map DNSName vs)"
  by (induction vs) (simp_all add: x509_DNSName_def)

lemma generate_selfsigned_cert_shape:
  assumes "h \<noteq> []" and "length h \<le> 64"
    and "list_all (\<lambda>v. list_all (\<lambda>c. of_char c < (128 :: nat)) v)
           (h # (case ips of None \<Rightarrow> [] | Some l \<Rightarrow> l))"
  shows "generate_selfsigned_cert entropy serial now h ips None =
     Inr (CertPem \<lparr>subject_name = h, issuer_name = h,
               public_key_of = \<lparr>key_size = 4096, public_exponent = 65537, key_material = entropy\<rparr>,
               serial_number = serial,
               not_valid_before = now,
               not_valid_after = now + 3650 * 86400,
               extensions =
                 [(BasicConstraints True (Some 0), False),
                  (SubjectAlternativeName
                     (DNSName h # map DNSName (case ips of None \<Rightarrow> [] | Some l \<Rightarrow> l)), False)],
               signing_key = \<lparr>key_size = 4096, public_exponent = 65537, key_material = entropy\<rparr>,
               signature_hash = SHA256\<rparr>,
          KeyPem \<lparr>key_size = 4096, public_exponent = 65537, key_material = entropy\<rparr>)"
proof (cases ips)
  case None
  with assms show ?thesis
    by (simp add: generate_selfsigned_cert_def generate_private_key_def timedelta_days_def Let_def
        x509_NameAttribute_common_name_def x509_DNSName_def)
next
  case (Some l)
  with assms have "x509_DNSNames l = Inr (map DNSName l)"
    by (simp add: x509_DNSNames_ascii)
  with Some assms show ?thesis
    by (cases l)
       (simp_all add: generate_selfsigned_cert_def generate_private_key_def timedelta_days_def
          Let_def x509_NameAttribute_common_name_def x509_DNSName_def)
qed

lemma generate_selfsigned_cert_long_hostname:
  "64 < length h \<Longrightarrow>
     generate_selfsigned_cert entropy serial now h ips key =
       Inl (ValueError (''Attribute's length must be >= 1 and <= 64, but it was ''
                          @ str_nat (length h)))"
  by (simp add: generate_selfsigned_cert_def x509_NameAttribute_common_name_def Let_def)

lemma x509_DNSNames_values: "x509_DNSNames vs = Inr gs \<Longrightarrow> dns_values gs = vs"
  by (induction vs arbitrary: gs) (auto simp: x509_DNSName_def split: if_splits sum.splits)

lemma generated_cert_dns_names:
  assumes "generate_selfsigned_cert entropy serial now h ips key = Inr (cert, key_pem)"
  shows "get_dns_names_from_cert cert = Inr (h # (case ips of None \<Rightarrow> [] | Some l \<Rightarrow> l))"
  using assms
  by (auto simp: generate_selfsigned_cert_def get_dns_names_from_cert_def Let_def
        x509_DNSName_def x509_NameAttribute_common_name_def x509_DNSNames_values
      split: option.splits sum.splits if_splits)

lemma init_certificate_noop:
  assumes "path_exists t cp" and "path_exists t kp"
    and "read_bytes t cp = Inr pem" and "get_dns_names_from_cert pem = Inr dns_names"
    and "h \<in> set dns_names"
  shows "init_certificate entropy serial now t (Some cp) (Some kp) h = (None, t)"
  using assms by (simp add: init_certificate_def)

lemma walk_None_iff:
  "walk t pre cs = None \<longleftrightarrow> (\<forall>ds. ds \<noteq> [] \<and> prefix ds cs \<longrightarrow> t (pre @ ds) = Some Dir)"
proof (induction cs arbitrary: pre)
  case Nil
  then show ?case by simp
next
  case (Cons c cs)
  show ?case
  proof
    assume w: "walk t pre (c # cs) = None"
    then have here: "t (pre @ [c]) = Some Dir" and rest: "walk t (pre @ [c]) cs = None"
      by (auto split: option.splits node.splits)
    show "\<forall>ds. ds \<noteq> [] \<and> prefix ds (c # cs) \<longrightarrow> t (pre @ ds) = Some Dir"
    proof (intro allI impI)
      fix ds assume d: "ds \<noteq> [] \<and> prefix ds (c # cs)"
      then obtain ds' where ds: "ds = c # ds'" and p: "prefix ds' cs"
        by (cases ds) auto
      show "t (pre @ ds) = Some Dir"
      proof (cases "ds' = []")
        case True
        then show ?thesis using here ds by simp
      next
        case False
        with rest p Cons.IH [of "pre @ [c]"] have "t ((pre @ [c]) @ ds') = Some Dir" by blast
        then show ?thesis using ds by simp
      qed
    qed
  next
    assume a: "\<forall>ds. ds \<noteq> [] \<and> prefix ds (c # cs) \<longrightarrow> t (pre @ ds) = Some Dir"
    then have here: "t (pre @ [c]) = Some Dir" by simp
    have "\<forall>ds. ds \<noteq> [] \<and> prefix ds cs \<longrightarrow> t ((pre @ [c]) @ ds) = Some Dir"
    proof (intro allI impI)
      fix ds assume "ds \<noteq> [] \<and> prefix ds cs"
      then have "c # ds \<noteq> [] \<and> prefix (c # ds) (c # cs)" by simp
      with a have "t (pre @ c # ds) = Some Dir" by blast
      then show "t ((pre @ [c]) @ ds) = Some Dir" by simp
    qed
    then have "walk t (pre @ [c]) cs = None" using Cons.IH [of "pre @ [c]"] by blast
    then show "walk t pre (c # cs) = None" using here by simp
  qed
qed

lemma walk_error_without_file:
  assumes "walk t pre cs = Some e"
    and "\<forall>ds b. ds \<noteq> [] \<and> prefix ds cs \<longrightarrow> t (pre @ ds) \<noteq> Some (File b)"
  shows "e = FileNotFoundError"
  using assms
proof (induction cs arbitrary: pre)
  case Nil
  then show ?case by simp
next
  case (Cons c cs)
  from Cons.prems(2) have nf: "\<forall>b. t (pre @ [c]) \<noteq> Some (File b)"
    by (metis Cons_prefix_Cons list.distinct(1) prefix_bot.bot_least)
  show ?case
  proof (cases "t (pre @ [c])")
    case None
    with Cons.prems(1) show ?thesis by simp
  next
    case (Some n)
    with nf have n: "t (pre @ [c]) = Some Dir" by (cases n) auto
    with Cons.prems(1) have w: "walk t (pre @ [c]) cs = Some e" by simp
    have "\<forall>ds b. ds \<noteq> [] \<and> prefix ds cs \<longrightarrow> t ((pre @ [c]) @ ds) \<noteq> Some (File b)"
    proof (intro allI impI)
      fix ds b assume "ds \<noteq> [] \<and> prefix ds cs"
      then have "c # ds \<noteq> [] \<and> prefix (c # ds) (c # cs)" by simp
      with Cons.prems(2) have "t (pre @ c # ds) \<noteq> Some (File b)" by blast
      then show "t ((pre @ [c]) @ ds) \<noteq> Some (File b)" by simp
    qed
    with Cons.IH [OF w] show ?thesis by blast
  qed
qed

lemma walk_with_dirs: "walk (with_dirs t p) [] p = None"
  by (simp add: walk_None_iff with_dirs_def)

lemma with_dirs_snoc_dir:
  assumes "t (ps @ [c]) = None \<or> t (ps @ [c]) = Some Dir"
  shows "(with_dirs t ps)(ps @ [c] \<mapsto> Dir) = with_dirs t (ps @ [c])"
  by (rule ext) (auto simp: with_dirs_def prefix_snoc)

lemma with_dirs_same:
  assumes "walk t [] p = None"
  shows "with_dirs t p = t"
  using assms by (auto simp: with_dirs_def walk_None_iff intro!: ext)

lemma mkdir_parents_makes_dirs:
  assumes "\<forall>q b. q \<noteq> [] \<and> prefix q p \<longrightarrow> t q \<noteq> Some (File b)"
  shows "mkdir_parents t p = (None, with_dirs t p)"
  using assms
proof (induction p rule: rev_induct)
  case Nil
  have "with_dirs t [] = t" by (rule ext) (simp add: with_dirs_def)
  then show ?case
    by (simp add: os_mkdir_def is_dir_def)
next
  case (snoc c ps)
  let ?p = "ps @ [c]"
  have nofile_ps: "\<forall>q b. q \<noteq> [] \<and> prefix q ps \<longrightarrow> t q \<noteq> Some (File b)"
    using snoc.prems by (simp add: prefix_snoc)
  have here: "t ?p = None \<or> t ?p = Some Dir"
  proof (cases "t ?p")
    case None then show ?thesis by simp
  next
    case (Some n)
    with snoc.prems have "n = Dir" by (cases n) auto
    with Some show ?thesis by simp
  qed
  have snoc_dir: "(with_dirs t ps)(?p \<mapsto> Dir) = with_dirs t ?p"
    using with_dirs_snoc_dir [of t ps c] here by simp
  have par: "parent ?p = ps" by (simp add: parent_def)
  have ne: "parent ?p \<noteq> ?p" by (simp add: parent_def)
  show ?case
  proof (cases "walk t [] ps")
    case None
    then have same: "with_dirs t ps = t" by (rule with_dirs_same)
    from here show ?thesis
    proof
      assume "t ?p = None"
      then show ?thesis
        using None snoc_dir same
        by (subst mkdir_parents.simps) (simp add: os_mkdir_def par)
    next
      assume d: "t ?p = Some Dir"
      then have "walk t [] ?p = None" using None
        by (auto simp: walk_None_iff prefix_snoc)
      then have "with_dirs t ?p = t" by (rule with_dirs_same)
      then show ?thesis using None d
        by (subst mkdir_parents.simps) (simp add: os_mkdir_def par is_dir_def)
    qed
  next
    case (Some e)
    have e: "e = FileNotFoundError"
      using walk_error_without_file [OF Some] nofile_ps by simp
    have rec: "mkdir_parents t ps = (None, with_dirs t ps)"
      using snoc.IH nofile_ps by blast
    have w1: "walk (with_dirs t ps) [] ps = None" by (rule walk_with_dirs)
    have t1p: "with_dirs t ps ?p = t ?p" by (simp add: with_dirs_def)
    have last: "mkdir_exist_ok (with_dirs t ps) ?p = (None, with_dirs t ?p)"
    proof -
      from here show ?thesis
      proof
        assume "t ?p = None"
        then show ?thesis using w1 t1p snoc_dir
          by (simp add: mkdir_exist_ok_def os_mkdir_def par)
      next
        assume d: "t ?p = Some Dir"
        have "with_dirs t ps = with_dirs t ?p"
          using d by (auto simp: with_dirs_def prefix_snoc intro!: ext)
        then show ?thesis using w1 t1p d
          by (simp add: mkdir_exist_ok_def os_mkdir_def par is_dir_def)
      qed
    qed
    show ?thesis
      using Some e rec last ne
      by (subst mkdir_parents.simps) (simp add: os_mkdir_def par)
  qed
qed


lemma walk_update_off_path:
  assumes "\<not> prefix p (pre @ cs)"
  shows "walk (t(p \<mapsto> n)) pre cs = walk t pre cs"
  using assms
proof (induction cs arbitrary: pre)
  case Nil
  then show ?case by simp
next
  case (Cons c cs)
  have ne: "pre @ [c] \<noteq> p"
    using Cons.prems by (auto simp: prefix_def)
  have "\<not> prefix p ((pre @ [c]) @ cs)" using Cons.prems by simp
  from Cons.IH [OF this] ne show ?case
    by (simp split: option.splits node.splits)
qed

lemma parent_not_prefixed: "p \<noteq> [] \<Longrightarrow> \<not> prefix p (parent p)"
proof
  assume ne: "p \<noteq> []" and pre: "prefix p (parent p)"
  from ne obtain ys y where p: "p = ys @ [y]"
    by (cases p rule: rev_cases) auto
  with pre have "prefix (ys @ [y]) ys" by (simp add: parent_def)
  then have "length (ys @ [y]) \<le> length ys" by (rule prefix_length_le)
  then show False by simp
qed

lemma generate_new_cert_writes_both:
  assumes nofile: "\<forall>q b. q \<noteq> [] \<and> prefix q (parent cp) \<longrightarrow> t q \<noteq> Some (File b)"
    and cp: "cp \<noteq> []" "t cp \<noteq> Some Dir"
    and kp: "kp \<noteq> []" "kp \<noteq> cp" "t kp \<noteq> Some Dir" "\<not> prefix kp (parent cp)"
    and kdir: "walk (with_dirs t (parent cp)) [] (parent kp) = None"
    and gen: "generate_selfsigned_cert entropy serial now h None None = Inr (cert, key)"
  shows "generate_new_cert entropy serial now t cp (Some kp) h =
           (None, (with_dirs t (parent cp))(cp \<mapsto> File cert, kp \<mapsto> File key))"
proof -
  let ?t1 = "with_dirs t (parent cp)"
  have mk: "mkdir_parents t (parent cp) = (None, ?t1)"
    using nofile by (rule mkdir_parents_makes_dirs)
  have notpre: "\<not> prefix cp (parent cp)"
    using cp(1) by (rule parent_not_prefixed)
  have t1cp: "?t1 cp = t cp" using notpre by (simp add: with_dirs_def)
  have w1: "write_bytes ?t1 cp (File_content) = Inr (?t1(cp \<mapsto> File File_content))" for File_content
    using cp t1cp walk_with_dirs [of t "parent cp"]
    by (auto simp: write_bytes_def split: option.splits node.splits)
  let ?t2 = "?t1(cp \<mapsto> File cert)"
  have cp_off: "\<not> prefix cp ([] @ parent kp)"
  proof
    assume "prefix cp ([] @ parent kp)"
    then have "?t1 cp = Some Dir" using kdir cp(1) by (simp add: walk_None_iff)
    with t1cp cp(2) show False by simp
  qed
  have wk: "walk ?t2 [] (parent kp) = None"
    using walk_update_off_path [OF cp_off] kdir by simp
  have t1kp: "?t1 kp = t kp" using kp(4) by (simp add: with_dirs_def)
  have w2: "write_bytes ?t2 kp key = Inr (?t2(kp \<mapsto> File key))"
    using kp(1,2,3) wk t1kp by (auto simp: write_bytes_def split: option.splits node.splits)
  show ?thesis
    by (simp add: generate_new_cert_def gen mk w1 w2 del: mkdir_parents.simps)
qed


lemma generate_new_cert_beside:
  assumes "\<forall>q b. q \<noteq> [] \<and> prefix q d \<longrightarrow> t q \<noteq> Some (File b)"
    and "t (d @ [c]) \<noteq> Some Dir" and "t (d @ [k]) \<noteq> Some Dir" and "c \<noteq> k"
    and "generate_selfsigned_cert entropy serial now h None None = Inr (cert, key)"
  shows "generate_new_cert entropy serial now t (d @ [c]) (Some (d @ [k])) h =
           (None, (with_dirs t d)(d @ [c] \<mapsto> File cert, d @ [k] \<mapsto> File key))"
  using generate_new_cert_writes_both [of "d @ [c]" t "d @ [k]" entropy serial now h cert key] assms
    walk_with_dirs [of t d]
  by (simp add: parent_def)

lemma read_bytes_Inr:
  "read_bytes t p = Inr b \<longleftrightarrow> p \<noteq> [] \<and> walk t [] (parent p) = None \<and> t p = Some (File b)"
  by (auto simp: read_bytes_def split: option.splits node.splits)

lemma init_certificate_regenerates_on_mismatch:
  assumes rd: "read_bytes t cp = Inr pem" and rk: "read_bytes t kp = Inr old_key"
    and ne: "kp \<noteq> cp"
    and dns: "get_dns_names_from_cert pem = Inr dns_names" and miss: "h \<notin> set dns_names"
    and gen: "generate_selfsigned_cert entropy serial now h None None = Inr (cert, key)"
  shows "init_certificate entropy serial now t (Some cp) (Some kp) h =
           (None, t(cp \<mapsto> File cert, kp \<mapsto> File key))"
proof -
  from rd have cp: "cp \<noteq> []" "walk t [] (parent cp) = None" "t cp = Some (File pem)"
    by (simp_all add: read_bytes_Inr)
  from rk have kp: "kp \<noteq> []" "walk t [] (parent kp) = None" "t kp = Some (File old_key)"
    by (simp_all add: read_bytes_Inr)
  have ex: "path_exists t cp" "path_exists t kp"
    using cp kp by (simp_all add: path_exists_def)
  have same: "with_dirs t (parent cp) = t" using cp(2) by (rule with_dirs_same)
  have nofile: "\<forall>q b. q \<noteq> [] \<and> prefix q (parent cp) \<longrightarrow> t q \<noteq> Some (File b)"
    using cp(2) by (simp add: walk_None_iff)
  have np: "\<not> prefix kp (parent cp)"
  proof
    assume "prefix kp (parent cp)"
    with cp(2) kp(1) have "t kp = Some Dir" by (simp add: walk_None_iff)
    with kp(3) show False by simp
  qed
  have kd: "walk (with_dirs t (parent cp)) [] (parent kp) = None"
    using same kp(2) by simp
  have "generate_new_cert entropy serial now t cp (Some kp) h =
           (None, (with_dirs t (parent cp))(cp \<mapsto> File cert, kp \<mapsto> File key))"
    using nofile cp(1) _ kp(1) ne _ np kd gen
    by (rule generate_new_cert_writes_both) (simp_all add: cp kp)
  then show ?thesis
    using ex rd dns miss same by (simp add: init_certificate_def)
qed

section \<open>Dispatcher: one response per request\<close>

text \<open>
  Claim C1, as the code has it. For a payload that decodes to a request whose event is
  a str \<open>E\<close>, when the handler returns a \<open>Rsp\<close> or raises an instance of
  \<open>Exception\<close>, the wrapper raises nothing and adds exactly one emission, on
  \<open>E + '_rsp'\<close>, to the session that sent the request. On a normal return the
  payload is the handler's own \<open>Rsp\<close> with its event replaced by \<open>E + '_rsp'\<close>
  (status and data as the handler set them); on a raised exception it is an error
  response whose data holds the class name, the message and the traceback text.
\<close>

theorem dispatcher_emits_one_response:
  assumes "Req_from_dict d = Inr req" and "req_event req = PStr E"
    and "func sid (req_event req) (req_data req) = outcome"
    and "case outcome of Returns r \<Rightarrow> True | Raises x \<Rightarrow> exc_is_Exception x"
  shows "handle_request_wrapper so tj func sid d out =
           (None, out @ [\<lparr>em_event = PStr (E @ ''_rsp''),
                          em_data =
                            (case outcome of
                               Returns r \<Rightarrow> Rsp_to_dict so tj (r\<lparr>event := PStr (E @ ''_rsp'')\<rparr>)
                             | Raises x \<Rightarrow>
                                 PDict [(''status'', PStr ERROR),
                                        (''event'', PStr (E @ ''_rsp'')),
                                        (''data'', PDict [(''name'', PStr (exc_class_name x)),
                                                          (''message'', PStr (exc_str x)),
                                                          (''tb'', PStr (exc_format x))])]),
                          em_to = sid\<rparr>])"
proof (cases outcome)
  case (Returns r)
  with assms show ?thesis by (simp add: handler_wrapper_returns)
next
  case (Raises x)
  with assms show ?thesis by (simp add: handler_wrapper_raises)
qed

text \<open>
  C1 at a request \<open>ping\<close> whose handler raises a KeyError.
\<close>

theorem dispatcher_emits_one_response_witness:
  "Req_from_dict (PDict [(''event'', PStr ''ping''), (''data'', PInt 1)])
      = Inr \<lparr>req_event = PStr ''ping'', req_data = PInt 1\<rparr>
   \<and> handle_request_wrapper (\<lambda>v. []) (\<lambda>v. [])
        (\<lambda>sid ev dt. Raises \<lparr>exc_class_name = ''KeyError'', exc_str = ''k'',
                                exc_format = ''Traceback'', exc_is_Exception = True\<rparr>)
        ''s1'' (PDict [(''event'', PStr ''ping''), (''data'', PInt 1)]) []
      = (None, [\<lparr>em_event = PStr ''ping_rsp'',
                  em_data = PDict [(''status'', PStr ERROR),
                                   (''event'', PStr ''ping_rsp''),
                                   (''data'', PDict [(''name'', PStr ''KeyError''),
                                                     (''message'', PStr ''k''),
                                                     (''tb'', PStr ''Traceback'')])],
                  em_to = ''s1''\<rparr>])"
proof -
  have d: "Req_from_dict (PDict [(''event'', PStr ''ping''), (''data'', PInt 1)])
             = Inr \<lparr>req_event = PStr ''ping'', req_data = PInt 1\<rparr>"
    by (simp add: Req_from_dict_def bind_kwargs_def)
  show ?thesis
    using d dispatcher_emits_one_response
      [OF d, of "''ping''"
         "\<lambda>sid ev dt. Raises \<lparr>exc_class_name = ''KeyError'', exc_str = ''k'',
                                 exc_format = ''Traceback'', exc_is_Exception = True\<rparr>"
         "''s1''"
         "Raises \<lparr>exc_class_name = ''KeyError'', exc_str = ''k'',
                   exc_format = ''Traceback'', exc_is_Exception = True\<rparr>"
         "\<lambda>v. []" "\<lambda>v. []" "[]"]
    by simp
qed

text \<open>
  C1 as stated fails. The dispatcher never sets the status of a returned response: a
  handler that returns a \<open>Rsp\<close> of status \<open>error\<close> has that response emitted, not
  a success response. And an exception outside \<open>Exception\<close> (here SystemExit) is
  not caught: nothing is emitted.
\<close>

theorem dispatcher_success_status_counterexample:
  "handle_request_wrapper (\<lambda>v. []) (\<lambda>v. [])
     (\<lambda>sid ev dt. Returns \<lparr>status = PStr ERROR, event = PNone, data = PNone\<rparr>)
     ''s1'' (PDict [(''event'', PStr ''ping'')]) []
     = (None, [\<lparr>em_event = PStr ''ping_rsp'',
                 em_data = PDict [(''status'', PStr ERROR),
                                  (''event'', PStr ''ping_rsp''),
                                  (''data'', PNone)],
                 em_to = ''s1''\<rparr>])
   \<and> snd (handle_request_wrapper (\<lambda>v. []) (\<lambda>v. [])
     (\<lambda>sid ev dt. Returns \<lparr>status = PStr ERROR, event = PNone, data = PNone\<rparr>)
     ''s1'' (PDict [(''event'', PStr ''ping'')]) [])
     \<noteq> [\<lparr>em_event = PStr ''ping_rsp'',
           em_data = PDict [(''status'', PStr SUCCESS),
                            (''event'', PStr ''ping_rsp''),
                            (''data'', PNone)],
           em_to = ''s1''\<rparr>]
   \<and> handle_request_wrapper (\<lambda>v. []) (\<lambda>v. [])
     (\<lambda>sid ev dt. Raises \<lparr>exc_class_name = ''SystemExit'', exc_str = ''1'',
                             exc_format = ''Traceback'', exc_is_Exception = False\<rparr>)
     ''s1'' (PDict [(''event'', PStr ''ping'')]) []
     = (Some (Propagated ''SystemExit'' ''1''), [])"
  by (simp add: handle_request_wrapper_def Req_from_dict_def bind_kwargs_def Rsp_to_dict_def)

section \<open>Client: verifying a response\<close>

text \<open>
  Claim C2, as the code has it. On a response of status \<open>success\<close>
  \<open>verify_response\<close> raises nothing and returns None, and
  \<open>_get_and_verify_response\<close> hands the caller the stored response itself, its data
  untouched. On any other status, with a data field that decodes to an error record
  whose name is a str: when the name is a key of the exception map, the mapped class
  is called with the record's message; if that call builds an instance, the instance
  is raised carrying the record's traceback and the response's event, and if the call
  raises, its error is what \<open>verify_response\<close> raises. When the name is no key, a
  ResponseError is raised whose message embeds name, message and event, carrying the
  traceback.
\<close>

theorem verify_response_cases:
  "(status r = PStr SUCCESS \<longrightarrow>
      verify_response so emap r = Inr PNone
      \<and> (rsp_event c \<and> rsp c = Some r \<and> exception_map c = emap \<longrightarrow>
           fst (get_and_verify_response sd so c) = Inr r))
   \<and> (status r \<noteq> PStr SUCCESS \<and> SerializableException_from_dict (data r) = Inr x
        \<and> name x = PStr n \<and> map_of emap n = Some cls \<and> cls_init cls (message x) = None \<longrightarrow>
      verify_response so emap r = Inl (Mapped (cls_name cls) (message x) (tb x) (event r)))
   \<and> (status r \<noteq> PStr SUCCESS \<and> SerializableException_from_dict (data r) = Inr x
        \<and> name x = PStr n \<and> map_of emap n = Some cls \<and> cls_init cls (message x) = Some e \<longrightarrow>
      verify_response so emap r = Inl e)
   \<and> (status r \<noteq> PStr SUCCESS \<and> SerializableException_from_dict (data r) = Inr x
        \<and> name x = PStr n \<and> map_of emap n = None \<longrightarrow>
      verify_response so emap r =
        Inl (ResponseError (''Error: '' @ n @ '', message: '' @ py_str so (message x)
                              @ '', event: '' @ py_str so (event r))
                           (tb x)))"
  by (simp add: verify_response_def get_and_verify_response_def get_response_def py_str_def)

text \<open>
  C2 with the exception map built from a module that holds a class \<open>KeyError\<close>
  (constructed from a message) and \<open>ResponseError\<close>: at a success response, at an
  error response named \<open>KeyError\<close>, at one named \<open>ResponseError\<close> (the constructor
  raises TypeError), and at one whose name is not in the map.
\<close>

theorem verify_response_cases_witness:
  "verify_response (\<lambda>v. [])
      (build_exception_map
         [(''KeyError'', ExceptionClass \<lparr>cls_name = ''KeyError'', cls_init = (\<lambda>m. None)\<rparr>),
          (''ResponseError'', ExceptionClass ResponseError_class),
          (''log'', OtherMember)])
      \<lparr>status = PStr SUCCESS, event = PStr ''ping'', data = PInt 5\<rparr> = Inr PNone
   \<and> fst (get_and_verify_response (\<lambda>s. (None, s)) (\<lambda>v. [])
        \<lparr>server_url = ''wss://localhost:8000'',
         exception_map = build_exception_map
           [(''KeyError'', ExceptionClass \<lparr>cls_name = ''KeyError'', cls_init = (\<lambda>m. None)\<rparr>),
            (''ResponseError'', ExceptionClass ResponseError_class),
            (''log'', OtherMember)],
         auth_data = PNone,
         rsp = Some \<lparr>status = PStr SUCCESS, event = PStr ''ping'', data = PInt 5\<rparr>,
         rsp_event = True, sio = None\<rparr>)
      = Inr \<lparr>status = PStr SUCCESS, event = PStr ''ping'', data = PInt 5\<rparr>
   \<and> verify_response (\<lambda>v. [])
      (build_exception_map
         [(''KeyError'', ExceptionClass \<lparr>cls_name = ''KeyError'', cls_init = (\<lambda>m. None)\<rparr>),
          (''ResponseError'', ExceptionClass ResponseError_class),
          (''log'', OtherMember)])
      \<lparr>status = PStr ERROR, event = PStr ''ping'',
       data = PDict [(''name'', PStr ''KeyError''), (''message'', PStr ''k''), (''tb'', PStr ''T'')]\<rparr>
      = Inl (Mapped ''KeyError'' (PStr ''k'') (PStr ''T'') (PStr ''ping''))
   \<and> verify_response (\<lambda>v. [])
      (build_exception_map
         [(''KeyError'', ExceptionClass \<lparr>cls_name = ''KeyError'', cls_init = (\<lambda>m. None)\<rparr>),
          (''ResponseError'', ExceptionClass ResponseError_class),
          (''log'', OtherMember)])
      \<lparr>status = PStr ERROR, event = PStr ''ping'',
       data = PDict [(''name'', PStr ''ResponseError''), (''message'', PStr ''k''), (''tb'', PStr ''T'')]\<rparr>
      = Inl TypeError
   \<and> verify_response (\<lambda>v. [])
      (build_exception_map
         [(''KeyError'', ExceptionClass \<lparr>cls_name = ''KeyError'', cls_init = (\<lambda>m. None)\<rparr>),
          (''ResponseError'', ExceptionClass ResponseError_class),
          (''log'', OtherMember)])
      \<lparr>status = PStr ERROR, event = PStr ''ping'',
       data = PDict [(''name'', PStr ''ValueError''), (''message'', PStr ''k''), (''tb'', PStr ''T'')]\<rparr>
      = Inl (ResponseError ''Error: ValueError, message: k, event: ping'' (PStr ''T''))"
proof -
  let ?key = "\<lparr>cls_name = ''KeyError'', cls_init = (\<lambda>m. None)\<rparr>"
  let ?m = "build_exception_map
         [(''KeyError'', ExceptionClass ?key),
          (''ResponseError'', ExceptionClass ResponseError_class),
          (''log'', OtherMember)]"
  let ?ok = "\<lparr>status = PStr SUCCESS, event = PStr ''ping'', data = PInt 5\<rparr>"
  let ?err = "\<lambda>n. \<lparr>status = PStr ERROR, event = PStr ''ping'',
       data = PDict [(''name'', PStr n), (''message'', PStr ''k''), (''tb'', PStr ''T'')]\<rparr>"
  let ?x = "\<lambda>n. \<lparr>name = PStr n, message = PStr ''k'', tb = PStr ''T''\<rparr>"
  let ?c = "\<lparr>server_url = ''wss://localhost:8000'', exception_map = ?m, auth_data = PNone,
         rsp = Some ?ok, rsp_event = True, sio = None\<rparr>"
  have m: "?m = [(''KeyError'', ?key), (''ResponseError'', ResponseError_class)]"
    by (simp add: build_exception_map_def)
  have dec: "SerializableException_from_dict (data (?err n)) = Inr (?x n)" for n
    by (simp add: SerializableException_from_dict_triple)
  have look: "map_of ?m ''KeyError'' = Some ?key"
      "map_of ?m ''ResponseError'' = Some ResponseError_class"
      "map_of ?m ''ValueError'' = None"
    by (simp_all add: m)
  have init: "cls_init ?key (PStr ''k'') = None" "cls_init ResponseError_class (PStr ''k'') = Some TypeError"
    by (simp_all add: ResponseError_class_def)
  show ?thesis
    using dec look init
      verify_response_cases [of ?ok "\<lambda>v. []" ?m ?c "\<lambda>s. (None, s)"]
      verify_response_cases [of "?err ''KeyError''" "\<lambda>v. []" ?m _ _ "?x ''KeyError''" "''KeyError''" ?key]
      verify_response_cases [of "?err ''ResponseError''" "\<lambda>v. []" ?m _ _ "?x ''ResponseError''"
         "''ResponseError''" ResponseError_class TypeError]
      verify_response_cases [of "?err ''ValueError''" "\<lambda>v. []" ?m _ _ "?x ''ValueError''" "''ValueError''"]
    by (simp add: py_str_def)
qed

text \<open>
  C2 as stated fails in its last part: on a success response carrying the data 5,
  \<open>verify_response\<close> returns None, not 5.
\<close>

theorem verify_response_returns_data_counterexample:
  "verify_response (\<lambda>v. []) []
      \<lparr>status = PStr SUCCESS, event = PStr ''ping'', data = PInt 5\<rparr> = Inr PNone
   \<and> verify_response (\<lambda>v. []) []
      \<lparr>status = PStr SUCCESS, event = PStr ''ping'', data = PInt 5\<rparr> \<noteq> Inr (PInt 5)"
  by (simp add: verify_response_def)

section \<open>Client: waiting for a response\<close>

text \<open>
  Claim C3, as the code has it. When the wake event is not set as the wait comes back
  (no response arrived within the timeout), \<open>_get_response\<close> raises
  ResponseTimeoutError, also when the transport's \<open>disconnect\<close> raises, and leaves
  the slot untouched; when \<open>disconnect\<close> returns normally the client is left not
  connected. When the wake event is set, \<open>_get_response\<close> returns the stored response
  and clears the wake event, leaving slot and transport as they were.
\<close>

theorem get_response_timeout_or_single_shot:
  "(\<not> rsp_event c \<longrightarrow>
      fst (get_response sd c) = Inl (ResponseTimeoutError ''Response timeout'')
      \<and> rsp (snd (get_response sd c)) = rsp c
      \<and> (fst (disconnect sd c) = None \<longrightarrow> \<not> connected (snd (get_response sd c))))
   \<and> (rsp_event c \<longrightarrow>
      fst (get_response sd c) = Inr (rsp c)
      \<and> \<not> rsp_event (snd (get_response sd c))
      \<and> rsp (snd (get_response sd c)) = rsp c
      \<and> sio (snd (get_response sd c)) = sio c)"
  by (auto simp: get_response_def disconnect_def connected_def split: option.splits prod.splits)

text \<open>
  C3 at a connected client with no response, whose transport disconnects, and at one
  holding a response.
\<close>

theorem get_response_timeout_or_single_shot_witness:
  "get_response (\<lambda>s. (None, s\<lparr>sio_connected := False\<rparr>))
      \<lparr>server_url = ''wss://localhost:8000'', exception_map = [], auth_data = PNone,
       rsp = None, rsp_event = False, sio = Some \<lparr>sio_connected = True\<rparr>\<rparr>
     = (Inl (ResponseTimeoutError ''Response timeout''),
        \<lparr>server_url = ''wss://localhost:8000'', exception_map = [], auth_data = PNone,
         rsp = None, rsp_event = False, sio = None\<rparr>)
   \<and> \<not> connected (snd (get_response (\<lambda>s. (None, s\<lparr>sio_connected := False\<rparr>))
      \<lparr>server_url = ''wss://localhost:8000'', exception_map = [], auth_data = PNone,
       rsp = None, rsp_event = False, sio = Some \<lparr>sio_connected = True\<rparr>\<rparr>))
   \<and> fst (get_response (\<lambda>s. (None, s\<lparr>sio_connected := False\<rparr>))
      \<lparr>server_url = ''wss://localhost:8000'', exception_map = [], auth_data = PNone,
       rsp = Some \<lparr>status = PStr SUCCESS, event = PStr ''ping'', data = PNone\<rparr>,
       rsp_event = True, sio = Some \<lparr>sio_connected = True\<rparr>\<rparr>)
     = Inr (Some \<lparr>status = PStr SUCCESS, event = PStr ''ping'', data = PNone\<rparr>)
   \<and> \<not> rsp_event (snd (get_response (\<lambda>s. (None, s\<lparr>sio_connected := False\<rparr>))
      \<lparr>server_url = ''wss://localhost:8000'', exception_map = [], auth_data = PNone,
       rsp = Some \<lparr>status = PStr SUCCESS, event = PStr ''ping'', data = PNone\<rparr>,
       rsp_event = True, sio = Some \<lparr>sio_connected = True\<rparr>\<rparr>))"
proof -
  let ?sd = "\<lambda>s. (None :: py_error option, s\<lparr>sio_connected := False\<rparr>)"
  let ?c1 = "\<lparr>server_url = ''wss://localhost:8000'', exception_map = [], auth_data = PNone,
       rsp = None, rsp_event = False, sio = Some \<lparr>sio_connected = True\<rparr>\<rparr>"
  let ?c2 = "\<lparr>server_url = ''wss://localhost:8000'', exception_map = [], auth_data = PNone,
       rsp = Some \<lparr>status = PStr SUCCESS, event = PStr ''ping'', data = PNone\<rparr>,
       rsp_event = True, sio = Some \<lparr>sio_connected = True\<rparr>\<rparr>"
  have ok: "fst (disconnect ?sd ?c1) = None" by (simp add: disconnect_def)
  show ?thesis
    using ok get_response_timeout_or_single_shot [of ?c1 ?sd]
      get_response_timeout_or_single_shot [of ?c2 ?sd]
    by (simp add: get_response_def disconnect_def connected_def)
qed

text \<open>
  C3 as stated fails when the transport's \<open>disconnect\<close> raises and leaves its object
  connected: ResponseTimeoutError is raised all the same, but \<open>self.sio = None\<close> was
  skipped and the client is still connected.
\<close>

theorem get_response_disconnect_raises_counterexample:
  "fst (get_response (\<lambda>s. (Some (SocketIOError ''disconnect failed''), s))
      \<lparr>server_url = ''wss://localhost:8000'', exception_map = [], auth_data = PNone,
       rsp = None, rsp_event = False, sio = Some \<lparr>sio_connected = True\<rparr>\<rparr>)
     = Inl (ResponseTimeoutError ''Response timeout'')
   \<and> connected (snd (get_response (\<lambda>s. (Some (SocketIOError ''disconnect failed''), s))
      \<lparr>server_url = ''wss://localhost:8000'', exception_map = [], auth_data = PNone,
       rsp = None, rsp_event = False, sio = Some \<lparr>sio_connected = True\<rparr>\<rparr>))"
  by (simp add: get_response_def disconnect_def connected_def)

section \<open>Envelope round trip\<close>

text \<open>
  Claim C4, as the code has it. For a request or response whose fields are plain
  values (None, bool, int, float, str, and lists and dicts of such: the scalar,
  sequence and mapping members of the data union), \<open>to_dict\<close> followed by
  \<open>from_dict\<close> gives the envelope back. When the data is a nested serializable
  value, what comes back holds the value's canonical text (a str) as data and
  \<open>str(event)\<close> as event: rebuilding the value from the text is left to the
  receiver. A plain request answered by a handler that returns a success response with
  plain data \<open>D'\<close> puts one response on the wire, the client's response handler stores
  it with the request's event, and \<open>_get_and_verify_response\<close> returns it with data
  \<open>D'\<close>.
\<close>

theorem envelope_round_trip:
  "(plain (req_event rq) \<and> plain (req_data rq) \<longrightarrow>
      Req_from_dict (Req_to_dict so tj rq) = Inr rq)
   \<and> (plain (status rs) \<and> plain (event rs) \<and> plain (data rs) \<longrightarrow>
      Rsp_from_dict (Rsp_to_dict so tj rs) = Inr rs)
   \<and> (is_serializable (req_data rq) \<longrightarrow>
      Req_from_dict (Req_to_dict so tj rq)
        = Inr \<lparr>req_event = PStr (py_str so (req_event rq)), req_data = PStr (tj (req_data rq))\<rparr>)
   \<and> (is_serializable (data rs) \<longrightarrow>
      Rsp_from_dict (Rsp_to_dict so tj rs)
        = Inr \<lparr>status = status rs, event = PStr (py_str so (event rs)),
               data = PStr (tj (data rs))\<rparr>)
   \<and> (plain D \<and> plain D'
        \<and> func sid (PStr E) D = Returns \<lparr>status = PStr SUCCESS, event = ev0, data = D'\<rparr> \<longrightarrow>
      handle_request_wrapper so tj func sid
          (Req_to_dict so tj \<lparr>req_event = PStr E, req_data = D\<rparr>) []
        = (None, [\<lparr>em_event = PStr (E @ ''_rsp''),
                    em_data = PDict [(''status'', PStr SUCCESS),
                                     (''event'', PStr (E @ ''_rsp'')),
                                     (''data'', D')],
                    em_to = sid\<rparr>])
      \<and> handle_response_wrapper c
          (PDict [(''status'', PStr SUCCESS), (''event'', PStr (E @ ''_rsp'')), (''data'', D')])
        = (None, c\<lparr>rsp := Some \<lparr>status = PStr SUCCESS, event = PStr E, data = D'\<rparr>,
                    rsp_event := True\<rparr>)
      \<and> fst (get_and_verify_response sd so
                (c\<lparr>rsp := Some \<lparr>status = PStr SUCCESS, event = PStr E, data = D'\<rparr>,
                   rsp_event := True\<rparr>))
        = Inr \<lparr>status = PStr SUCCESS, event = PStr E, data = D'\<rparr>)"
  using Req_roundtrip_plain [of rq so tj] Rsp_roundtrip_plain [of rs so tj]
    Req_roundtrip_serializable [of rq so tj] Rsp_roundtrip_serializable [of rs so tj]
    round_trip_through_handler
      [where D = D and D' = D' and func = func and sid = sid and E = E and ?ev0.0 = ev0
         and so = so and tj = tj and c = c and sd = sd]
  by blast

text \<open>
  C4 at a request carrying a list, a response carrying a dict, and envelopes carrying
  a model and a dataclass without fields whose canonical text is \<open>{}\<close>.
\<close>

theorem envelope_round_trip_witness:
  "Req_from_dict (Req_to_dict (\<lambda>v. []) (\<lambda>v. ''{}'')
        \<lparr>req_event = PStr ''ping'', req_data = PList [PInt 1, PStr ''a'']\<rparr>)
      = Inr \<lparr>req_event = PStr ''ping'', req_data = PList [PInt 1, PStr ''a'']\<rparr>
   \<and> Rsp_from_dict (Rsp_to_dict (\<lambda>v. []) (\<lambda>v. ''{}'')
        \<lparr>status = PStr SUCCESS, event = PStr ''ping_rsp'', data = PDict [(''k'', PInt 2)]\<rparr>)
      = Inr \<lparr>status = PStr SUCCESS, event = PStr ''ping_rsp'', data = PDict [(''k'', PInt 2)]\<rparr>
   \<and> Req_from_dict (Req_to_dict (\<lambda>v. []) (\<lambda>v. ''{}'')
        \<lparr>req_event = PStr ''ping'', req_data = PModel ''Empty'' []\<rparr>)
      = Inr \<lparr>req_event = PStr ''ping'', req_data = PStr ''{}''\<rparr>
   \<and> Rsp_from_dict (Rsp_to_dict (\<lambda>v. []) (\<lambda>v. ''{}'')
        \<lparr>status = PStr SUCCESS, event = PStr ''ping_rsp'', data = PData ''Empty'' []\<rparr>)
      = Inr \<lparr>status = PStr SUCCESS, event = PStr ''ping_rsp'', data = PStr ''{}''\<rparr>
   \<and> fst (get_and_verify_response (\<lambda>s. (None, s)) (\<lambda>v. [])
        \<lparr>server_url = ''wss://localhost:8000'', exception_map = [], auth_data = PNone,
         rsp = Some \<lparr>status = PStr SUCCESS, event = PStr ''ping'', data = PInt 7\<rparr>,
         rsp_event = True, sio = None\<rparr>)
      = Inr \<lparr>status = PStr SUCCESS, event = PStr ''ping'', data = PInt 7\<rparr>"
proof -
  let ?c = "\<lparr>server_url = ''wss://localhost:8000'', exception_map = [], auth_data = PNone, rsp = None, rsp_event = False, sio = None\<rparr>"
  let ?f = "\<lambda>sid ev dt. Returns \<lparr>status = PStr SUCCESS, event = PNone, data = PInt 7\<rparr>"
  show ?thesis
    using envelope_round_trip
        [of "\<lparr>req_event = PStr ''ping'', req_data = PList [PInt 1, PStr ''a'']\<rparr>"
            "\<lambda>v. []" "\<lambda>v. ''{}''"
            "\<lparr>status = PStr SUCCESS, event = PStr ''ping_rsp'', data = PDict [(''k'', PInt 2)]\<rparr>"
            "PInt 1" "PInt 7" ?f "''s1''" "''ping''" PNone ?c "\<lambda>s. (None, s)"]
      envelope_round_trip
        [of "\<lparr>req_event = PStr ''ping'', req_data = PModel ''Empty'' []\<rparr>"
            "\<lambda>v. []" "\<lambda>v. ''{}''"
            "\<lparr>status = PStr SUCCESS, event = PStr ''ping_rsp'', data = PData ''Empty'' []\<rparr>"]
    by (simp add: py_str_def)
qed

text \<open>
  C4 as stated fails for the nested serializable member of the union: a request
  carrying a model comes back carrying a str.
\<close>

theorem serializable_data_round_trip_counterexample:
  "Req_from_dict (Req_to_dict (\<lambda>v. []) (\<lambda>v. ''{}'')
        \<lparr>req_event = PStr ''ping'', req_data = PModel ''Empty'' []\<rparr>)
      = Inr \<lparr>req_event = PStr ''ping'', req_data = PStr ''{}''\<rparr>
   \<and> Req_from_dict (Req_to_dict (\<lambda>v. []) (\<lambda>v. ''{}'')
        \<lparr>req_event = PStr ''ping'', req_data = PModel ''Empty'' []\<rparr>)
      \<noteq> Inr \<lparr>req_event = PStr ''ping'', req_data = PModel ''Empty'' []\<rparr>"
  by (simp add: Req_to_dict_def Req_from_dict_def bind_kwargs_def py_str_def)

section \<open>Envelope decoding\<close>

text \<open>
  Claim C5, as the code has it. A payload decodes to a request exactly when it is a
  mapping that has the key \<open>event\<close> and no key other than \<open>event\<close> and \<open>data\<close>, and
  to a response exactly when it is a mapping that has the key \<open>status\<close> and no key
  other than \<open>status\<close>, \<open>event\<close> and \<open>data\<close>; no field value is inspected. A failed
  decoding raises TypeError (the code has no other decoding error); on the server
  nothing is emitted then, and on the client the slot and the wake event stay as they
  were. Encoding always yields a mapping.
\<close>

theorem decoding_fails_only_on_missing_required_field:
  "((\<exists>r. Req_from_dict d = Inr r) \<longleftrightarrow>
      (\<exists>kvs. d = PDict kvs \<and> set (map fst kvs) \<subseteq> {''event'', ''data''}
             \<and> ''event'' \<in> set (map fst kvs)))
   \<and> ((\<exists>r. Rsp_from_dict d = Inr r) \<longleftrightarrow>
      (\<exists>kvs. d = PDict kvs \<and> set (map fst kvs) \<subseteq> {''status'', ''event'', ''data''}
             \<and> ''status'' \<in> set (map fst kvs)))
   \<and> (\<forall>e. Req_from_dict d = Inl e \<longrightarrow>
          e = TypeError \<and> handle_request_wrapper so tj func sid d out = (Some TypeError, out))
   \<and> (\<forall>e. Rsp_from_dict d = Inl e \<longrightarrow> e = TypeError)
   \<and> (\<forall>e c'. handle_response_wrapper c d = (Some e, c') \<longrightarrow> c' = c)
   \<and> (\<exists>kvs. Req_to_dict so tj rq = PDict kvs)
   \<and> (\<exists>kvs. Rsp_to_dict so tj rs = PDict kvs)"
proof -
  have enc: "(\<exists>kvs. Req_to_dict so tj rq = PDict kvs) \<and> (\<exists>kvs. Rsp_to_dict so tj rs = PDict kvs)"
    by (simp add: Req_to_dict_def Rsp_to_dict_def)
  have req: "\<forall>e. Req_from_dict d = Inl e \<longrightarrow>
          e = TypeError \<and> handle_request_wrapper so tj func sid d out = (Some TypeError, out)"
    using Req_from_dict_Inl handle_request_wrapper_decode_error by blast
  have rsp: "\<forall>e. Rsp_from_dict d = Inl e \<longrightarrow> e = TypeError"
    using Rsp_from_dict_Inl by blast
  have keep: "\<forall>e c'. handle_response_wrapper c d = (Some e, c') \<longrightarrow> c' = c"
    using handle_response_wrapper_error_keeps_client by blast
  show ?thesis
    using Req_from_dict_Inr_iff [of d] Rsp_from_dict_Inr_iff [of d] enc req rsp keep
    by blast
qed

text \<open>
  C5 at a request payload without \<open>event\<close> and a response payload without
  \<open>status\<close>.
\<close>

theorem decoding_fails_only_on_missing_required_field_witness:
  "Req_from_dict (PDict [(''data'', PInt 1)]) = Inl TypeError
   \<and> handle_request_wrapper (\<lambda>v. []) (\<lambda>v. []) (\<lambda>sid ev dt. Returns \<lparr>status = PStr SUCCESS, event = PNone, data = PNone\<rparr>)
        ''s1'' (PDict [(''data'', PInt 1)]) [] = (Some TypeError, [])
   \<and> Rsp_from_dict (PDict [(''event'', PStr ''ping_rsp'')]) = Inl TypeError
   \<and> handle_response_wrapper \<lparr>server_url = ''wss://localhost:8000'', exception_map = [], auth_data = PNone, rsp = None, rsp_event = False, sio = None\<rparr>
        (PDict [(''event'', PStr ''ping_rsp'')])
      = (Some TypeError, \<lparr>server_url = ''wss://localhost:8000'', exception_map = [], auth_data = PNone, rsp = None, rsp_event = False, sio = None\<rparr>)"
proof -
  let ?c = "\<lparr>server_url = ''wss://localhost:8000'', exception_map = [], auth_data = PNone, rsp = None, rsp_event = False, sio = None\<rparr>"
  let ?f = "\<lambda>sid ev dt. Returns \<lparr>status = PStr SUCCESS, event = PNone, data = PNone\<rparr>"
  have a: "Req_from_dict (PDict [(''data'', PInt 1)]) = Inl TypeError"
    by (simp add: Req_from_dict_def bind_kwargs_def)
  have b: "Rsp_from_dict (PDict [(''event'', PStr ''ping_rsp'')]) = Inl TypeError"
    by (simp add: Rsp_from_dict_def bind_kwargs_def)
  have c: "handle_response_wrapper ?c (PDict [(''event'', PStr ''ping_rsp'')]) = (Some TypeError, ?c)"
    by (simp add: handle_response_wrapper_def Rsp_from_dict_def bind_kwargs_def)
  show ?thesis
    using a b c
      decoding_fails_only_on_missing_required_field
        [of "PDict [(''data'', PInt 1)]" "\<lambda>v. []" "\<lambda>v. []" ?f "''s1''" "[]" ?c]
    by simp
qed

text \<open>
  C5 as stated fails. A response payload without \<open>event\<close> decodes, its event None;
  fields of the wrong kind (a number for the status, a list or a number for the event)
  decode as they are.
\<close>

theorem decoding_accepts_missing_event_counterexample:
  "Rsp_from_dict (PDict [(''status'', PStr SUCCESS)])
     = Inr \<lparr>status = PStr SUCCESS, event = PNone, data = PNone\<rparr>
   \<and> Rsp_from_dict (PDict [(''status'', PInt 7), (''event'', PList [])])
     = Inr \<lparr>status = PInt 7, event = PList [], data = PNone\<rparr>
   \<and> Req_from_dict (PDict [(''event'', PInt 5)])
     = Inr \<lparr>req_event = PInt 5, req_data = PNone\<rparr>"
  by (simp add: Rsp_from_dict_def Req_from_dict_def bind_kwargs_def)

section \<open>Certificate ensure\<close>

text \<open>
  Claim C6 at a failing input: a server built for \<open>localhost:8000\<close> on an empty
  tree, the certificate path \<open>certs/cert.pem\<close> and the key path \<open>keys/key.pem\<close>.
  Both files are missing, a fresh pair is generated, the certificate is written, and
  the construction fails with FileNotFoundError: the key is not written.
\<close>

theorem ensure_fails_without_key_directory:
  "fst (ServerBase_init (\<lambda>u. Inr None) (\<lambda>u. Inr None) 1 2 0 Map.empty
          (Some ''localhost'') (Some 8000) None
          (Some [''certs'', ''cert.pem'']) (Some [''keys'', ''key.pem'']) True None)
     = Inl FileNotFoundError
   \<and> path_exists (snd (ServerBase_init (\<lambda>u. Inr None) (\<lambda>u. Inr None) 1 2 0 Map.empty
          (Some ''localhost'') (Some 8000) None
          (Some [''certs'', ''cert.pem'']) (Some [''keys'', ''key.pem'']) True None))
        [''certs'', ''cert.pem'']
   \<and> \<not> path_exists (snd (ServerBase_init (\<lambda>u. Inr None) (\<lambda>u. Inr None) 1 2 0 Map.empty
          (Some ''localhost'') (Some 8000) None
          (Some [''certs'', ''cert.pem'']) (Some [''keys'', ''key.pem'']) True None))
        [''keys'', ''key.pem'']"
  by (simp add: ServerBase_init_def init_address_def init_certificate_def truthy_str_def
      truthy_int_def cert_eval_defs)

section \<open>Certificate generation\<close>

text \<open>
  Claim C7 at a failing input: on an empty tree, with the certificate to be written to
  \<open>certs/cert.pem\<close> and the key to \<open>keys/key.pem\<close>, \<open>generate_new_cert\<close> makes
  the directory \<open>certs\<close> and writes the certificate, but does not make \<open>keys\<close>:
  writing the key raises FileNotFoundError and the key is not persisted.
\<close>

theorem key_directory_is_not_created:
  "fst (generate_new_cert 1 2 0 Map.empty [''certs'', ''cert.pem'']
          (Some [''keys'', ''key.pem'']) ''localhost'') = Some FileNotFoundError
   \<and> is_dir (snd (generate_new_cert 1 2 0 Map.empty [''certs'', ''cert.pem'']
          (Some [''keys'', ''key.pem'']) ''localhost'')) [''certs'']
   \<and> path_exists (snd (generate_new_cert 1 2 0 Map.empty [''certs'', ''cert.pem'']
          (Some [''keys'', ''key.pem'']) ''localhost'')) [''certs'', ''cert.pem'']
   \<and> \<not> is_dir (snd (generate_new_cert 1 2 0 Map.empty [''certs'', ''cert.pem'']
          (Some [''keys'', ''key.pem'']) ''localhost'')) [''keys'']
   \<and> \<not> path_exists (snd (generate_new_cert 1 2 0 Map.empty [''certs'', ''cert.pem'']
          (Some [''keys'', ''key.pem'']) ''localhost'')) [''keys'', ''key.pem'']"
  by (simp add: cert_eval_defs)

section \<open>Connection gate\<close>

text \<open>
  Claim C8. The \<open>connect\<close> handler raises ConnectionRefusedError exactly when the
  token differs from the configured key, and returns normally exactly when they are
  equal; for a str key and a str token, exactly when the two strings are equal. With
  the transport's session admission: a connection attempt with a token that differs
  from the key is refused, the session is not admitted, and an event sent under that
  session reaches no request handler (nothing is run, nothing is emitted); with the
  right token the session is admitted and its events are handled by the registered
  wrapper. On the client, when the transport's \<open>connect\<close> raises for the refusal,
  \<open>ClientBase.connect\<close> raises ConnectionError (its callbacks having been
  registered without error): the attempt fails.
\<close>

theorem connection_gate:
  "(connect_handler k sid auth = Some (ConnectionRefusedError ''Authentication failed''))
      = (auth \<noteq> optional_str k)
   \<and> (connect_handler k sid auth = None) = (auth = optional_str k)
   \<and> (connect_handler (Some key) sid (PStr token) = None) = (token = key)
   \<and> (auth \<noteq> optional_str k \<longrightarrow>
        fst (server_on_connect k srv sid auth)
          = Some (ConnectionRefusedError ''Authentication failed'')
        \<and> sid \<notin> set (sessions (snd (server_on_connect k srv sid auth)))
        \<and> server_on_event so tj func (snd (server_on_connect k srv sid auth)) sid d out
          = (None, out))
   \<and> (auth = optional_str k \<longrightarrow>
        fst (server_on_connect k srv sid auth) = None
        \<and> sid \<in> set (sessions (snd (server_on_connect k srv sid auth)))
        \<and> server_on_event so tj func (snd (server_on_connect k srv sid auth)) sid d out
          = handle_request_wrapper so tj func sid d out)
   \<and> (\<not> connected c \<and> (sio c = None \<longrightarrow> cb = None)
        \<and> fst (sc (case sio c of None \<Rightarrow> \<lparr>sio_connected = False\<rparr> | Some s0 \<Rightarrow> s0)
                  (case url of None \<Rightarrow> server_url c | Some u \<Rightarrow> u)
                  (auth_data c)) = Some (SocketIOError msg) \<longrightarrow>
        fst (connect sc cb c url)
          = Some (ConnectionError
                    (if str_in ''ConnectionResetError'' msg \<and> str_in ''Connection reset by peer'' msg
                     then ''Connection error, check url and server state: '' @ msg
                     else msg)))"
proof -
  have gate: "(connect_handler k sid auth = Some (ConnectionRefusedError ''Authentication failed''))
      = (auth \<noteq> optional_str k)"
    "(connect_handler k sid auth = None) = (auth = optional_str k)"
    "(connect_handler (Some key) sid (PStr token) = None) = (token = key)"
    by (simp_all add: connect_handler_def optional_str_def)
  have refused: "auth \<noteq> optional_str k \<longrightarrow>
        fst (server_on_connect k srv sid auth)
          = Some (ConnectionRefusedError ''Authentication failed'')
        \<and> sid \<notin> set (sessions (snd (server_on_connect k srv sid auth)))
        \<and> server_on_event so tj func (snd (server_on_connect k srv sid auth)) sid d out
          = (None, out)"
    by (simp add: server_on_connect_def server_on_event_def connect_handler_def)
  have admitted: "auth = optional_str k \<longrightarrow>
        fst (server_on_connect k srv sid auth) = None
        \<and> sid \<in> set (sessions (snd (server_on_connect k srv sid auth)))
        \<and> server_on_event so tj func (snd (server_on_connect k srv sid auth)) sid d out
          = handle_request_wrapper so tj func sid d out"
    by (simp add: server_on_connect_def server_on_event_def connect_handler_def)
  have client: "\<not> connected c \<and> (sio c = None \<longrightarrow> cb = None)
        \<and> fst (sc (case sio c of None \<Rightarrow> \<lparr>sio_connected = False\<rparr> | Some s0 \<Rightarrow> s0)
                  (case url of None \<Rightarrow> server_url c | Some u \<Rightarrow> u)
                  (auth_data c)) = Some (SocketIOError msg) \<longrightarrow>
        fst (connect sc cb c url)
          = Some (ConnectionError
                    (if str_in ''ConnectionResetError'' msg \<and> str_in ''Connection reset by peer'' msg
                     then ''Connection error, check url and server state: '' @ msg
                     else msg))"
    by (cases url)
       (auto simp: connect_def handle_socketio_error_def Let_def split: prod.splits option.splits)
  from gate refused admitted client show ?thesis by blast
qed

text \<open>
  C8 at the key \<open>secret\<close>: a wrong token is refused, the session \<open>s1\<close> is not
  admitted and its request reaches no handler; the right token is let in and the
  request is answered; the client whose transport reports the refusal gets a
  ConnectionError.
\<close>

theorem connection_gate_witness:
  "connect_handler (Some ''secret'') ''s1'' (PStr ''guess'')
     = Some (ConnectionRefusedError ''Authentication failed'')
   \<and> connect_handler (Some ''secret'') ''s1'' PNone
     = Some (ConnectionRefusedError ''Authentication failed'')
   \<and> connect_handler (Some ''secret'') ''s1'' (PStr ''secret'') = None
   \<and> server_on_connect (Some ''secret'') \<lparr>sessions = [''s0'']\<rparr> ''s1'' (PStr ''guess'')
     = (Some (ConnectionRefusedError ''Authentication failed''), \<lparr>sessions = [''s0'']\<rparr>)
   \<and> server_on_event (\<lambda>v. []) (\<lambda>v. [])
        (\<lambda>sid ev dt. Returns \<lparr>status = PStr SUCCESS, event = PNone, data = PNone\<rparr>)
        \<lparr>sessions = [''s0'']\<rparr> ''s1'' (PDict [(''event'', PStr ''ping'')]) []
     = (None, [])
   \<and> server_on_connect (Some ''secret'') \<lparr>sessions = [''s0'']\<rparr> ''s1'' (PStr ''secret'')
     = (None, \<lparr>sessions = [''s1'', ''s0'']\<rparr>)
   \<and> server_on_event (\<lambda>v. []) (\<lambda>v. [])
        (\<lambda>sid ev dt. Returns \<lparr>status = PStr SUCCESS, event = PNone, data = PNone\<rparr>)
        \<lparr>sessions = [''s1'', ''s0'']\<rparr> ''s1'' (PDict [(''event'', PStr ''ping'')]) []
     = (None, [\<lparr>em_event = PStr ''ping_rsp'',
                 em_data = PDict [(''status'', PStr SUCCESS),
                                  (''event'', PStr ''ping_rsp''),
                                  (''data'', PNone)],
                 em_to = ''s1''\<rparr>])
   \<and> fst (connect (\<lambda>s u a. (Some (SocketIOError ''Authentication failed''), s)) None
        \<lparr>server_url = ''wss://localhost:8000'', exception_map = [], auth_data = PStr ''guess'',
         rsp = None, rsp_event = False, sio = None\<rparr> None)
     = Some (ConnectionError ''Authentication failed'')"
proof -
  let ?f = "\<lambda>sid ev dt. Returns \<lparr>status = PStr SUCCESS, event = PNone, data = PNone\<rparr>"
  let ?c = "\<lparr>server_url = ''wss://localhost:8000'', exception_map = [], auth_data = PStr ''guess'',
         rsp = None, rsp_event = False, sio = None\<rparr>"
  let ?sc = "\<lambda>(s :: sio_client) (u :: string) (a :: pyval). (Some (SocketIOError ''Authentication failed''), s)"
  have nc: "\<not> connected ?c" by (simp add: connected_def)
  have no: "\<not> str_in ''ConnectionResetError'' ''Authentication failed''" by simp
  have a: "server_on_connect (Some ''secret'') \<lparr>sessions = [''s0'']\<rparr> ''s1'' (PStr ''guess'')
     = (Some (ConnectionRefusedError ''Authentication failed''), \<lparr>sessions = [''s0'']\<rparr>)"
    by (simp add: server_on_connect_def connect_handler_def optional_str_def)
  have b: "server_on_connect (Some ''secret'') \<lparr>sessions = [''s0'']\<rparr> ''s1'' (PStr ''secret'')
     = (None, \<lparr>sessions = [''s1'', ''s0'']\<rparr>)"
    by (simp add: server_on_connect_def connect_handler_def optional_str_def)
  have w: "handle_request_wrapper (\<lambda>v. []) (\<lambda>v. []) ?f ''s1'' (PDict [(''event'', PStr ''ping'')]) []
     = (None, [\<lparr>em_event = PStr ''ping_rsp'',
                 em_data = PDict [(''status'', PStr SUCCESS),
                                  (''event'', PStr ''ping_rsp''),
                                  (''data'', PNone)],
                 em_to = ''s1''\<rparr>])"
    by (simp add: handle_request_wrapper_def Req_from_dict_def bind_kwargs_def Rsp_to_dict_def)
  show ?thesis
    using a b w nc no
      connection_gate [of "Some ''secret''" "''s1''" "PStr ''guess''" "''secret''" "''secret''"
         "\<lparr>sessions = [''s0'']\<rparr>" "\<lambda>v. []" "\<lambda>v. []" ?f "PDict [(''event'', PStr ''ping'')]" "[]"
         ?c None ?sc None "''Authentication failed''"]
      connection_gate [of "Some ''secret''" "''s1''" "PNone"]
      connection_gate [of "Some ''secret''" "''s1''" "PStr ''secret''" "''secret''" "''secret''"
         "\<lparr>sessions = [''s0'']\<rparr>" "\<lambda>v. []" "\<lambda>v. []" ?f "PDict [(''event'', PStr ''ping'')]" "[]"]
    by (simp add: optional_str_def)
qed

section \<open>Server construction: address arguments\<close>

text \<open>
  Claim C9, as the code has it. An argument counts as given when it is truthy: a
  non-empty str, a port other than 0. \<open>ServerBase.__init__\<close> raises ValueError, and
  touches no file, when a truthy url comes with a truthy host name or port, and when
  the arguments do not resolve to a truthy host name and a truthy port: taken directly
  when the url is not truthy, or read from the url; an error of the url parser is
  raised as it is. With a truthy host name and port and no truthy url, or with a url
  alone that holds both, the address is accepted: the server is built with it when
  \<open>generate_cert\<close> is off, and when it is on the outcome is that of the certificate
  step.
\<close>

theorem server_address_arguments:
  "(truthy_str url \<and> (truthy_str h \<or> truthy_int p) \<longrightarrow>
      ServerBase_init uh up en se now t h p url cf kf gen auth
        = (Inl (ValueError ''You cannot specify both URL and hostname or port''), t))
   \<and> (\<not> truthy_str url \<and> \<not> (truthy_str h \<and> truthy_int p) \<longrightarrow>
      ServerBase_init uh up en se now t h p url cf kf gen auth
        = (Inl (ValueError ''Both hostname and port must be specified either directly or via the URL''), t))
   \<and> (url = Some u \<and> u \<noteq> [] \<and> \<not> truthy_str h \<and> \<not> truthy_int p
        \<and> uh u = Inr h' \<and> up u = Inr p' \<and> \<not> (truthy_str h' \<and> truthy_int p') \<longrightarrow>
      ServerBase_init uh up en se now t h p url cf kf gen auth
        = (Inl (ValueError ''Both hostname and port must be specified either directly or via the URL''), t))
   \<and> (url = Some u \<and> u \<noteq> [] \<and> \<not> truthy_str h \<and> \<not> truthy_int p
        \<and> (uh u = Inl e \<or> (uh u = Inr h' \<and> up u = Inl e)) \<longrightarrow>
      ServerBase_init uh up en se now t h p url cf kf gen auth = (Inl e, t))
   \<and> (\<not> truthy_str url \<and> truthy_str h \<and> truthy_int p \<longrightarrow>
      ServerBase_init uh up en se now t h p url cf kf gen auth
        = (if gen
           then (case init_certificate en se now t cf kf (the h) of
                   (Some e', t') \<Rightarrow> (Inl e', t')
                 | (None, t') \<Rightarrow>
                     (Inr \<lparr>hostname = h, port = p, certfile_path = cf, keyfile_path = kf,
                           auth_key = auth\<rparr>, t'))
           else (Inr \<lparr>hostname = h, port = p, certfile_path = cf, keyfile_path = kf,
                      auth_key = auth\<rparr>, t)))
   \<and> (url = Some u \<and> u \<noteq> [] \<and> \<not> truthy_str h \<and> \<not> truthy_int p
        \<and> uh u = Inr h' \<and> up u = Inr p' \<and> truthy_str h' \<and> truthy_int p' \<longrightarrow>
      ServerBase_init uh up en se now t h p url cf kf gen auth
        = (if gen
           then (case init_certificate en se now t cf kf (the h') of
                   (Some e', t') \<Rightarrow> (Inl e', t')
                 | (None, t') \<Rightarrow>
                     (Inr \<lparr>hostname = h', port = p', certfile_path = cf, keyfile_path = kf,
                           auth_key = auth\<rparr>, t'))
           else (Inr \<lparr>hostname = h', port = p', certfile_path = cf, keyfile_path = kf,
                      auth_key = auth\<rparr>, t)))"
  by (auto simp: ServerBase_init_def init_address_def truthy_str_def)

text \<open>
  C9 at a url together with a host name, a host name without a port, a url without a
  port, a url whose port the parser refuses, and the two accepted forms with
  \<open>generate_cert\<close> off.
\<close>

theorem server_address_arguments_witness:
  "ServerBase_init (\<lambda>u. Inr (Some ''localhost'')) (\<lambda>u. Inr (Some 8000)) 1 2 0 Map.empty
       (Some ''localhost'') None (Some ''wss://localhost:8000'') None None False None
     = (Inl (ValueError ''You cannot specify both URL and hostname or port''), Map.empty)
   \<and> ServerBase_init (\<lambda>u. Inr (Some ''localhost'')) (\<lambda>u. Inr (Some 8000)) 1 2 0 Map.empty
       (Some ''localhost'') None None None None False None
     = (Inl (ValueError ''Both hostname and port must be specified either directly or via the URL''), Map.empty)
   \<and> ServerBase_init (\<lambda>u. Inr (Some ''localhost'')) (\<lambda>u. Inr None) 1 2 0 Map.empty
       None None (Some ''wss://localhost'') None None False None
     = (Inl (ValueError ''Both hostname and port must be specified either directly or via the URL''), Map.empty)
   \<and> ServerBase_init (\<lambda>u. Inr (Some ''localhost'')) (\<lambda>u. Inl (ValueError ''Port out of range 0-65535'')) 1 2 0 Map.empty
       None None (Some ''wss://localhost:99999'') None None False None
     = (Inl (ValueError ''Port out of range 0-65535''), Map.empty)
   \<and> ServerBase_init (\<lambda>u. Inr (Some ''localhost'')) (\<lambda>u. Inr (Some 8000)) 1 2 0 Map.empty
       (Some ''localhost'') (Some 8000) None None None False None
     = (Inr \<lparr>hostname = Some ''localhost'', port = Some 8000, certfile_path = None,
              keyfile_path = None, auth_key = None\<rparr>, Map.empty)
   \<and> ServerBase_init (\<lambda>u. Inr (Some ''localhost'')) (\<lambda>u. Inr (Some 8000)) 1 2 0 Map.empty
       None None (Some ''wss://localhost:8000'') None None False None
     = (Inr \<lparr>hostname = Some ''localhost'', port = Some 8000, certfile_path = None,
              keyfile_path = None, auth_key = None\<rparr>, Map.empty)"
proof -
  let ?uh = "\<lambda>u::string. Inr (Some ''localhost'') :: py_error + string option"
  let ?up = "\<lambda>u::string. Inr (Some 8000) :: py_error + int option"
  have 1: "truthy_str (Some ''wss://localhost:8000'')" "truthy_str (Some ''localhost'')"
      "truthy_int (Some 8000)" "\<not> truthy_str None" "\<not> truthy_int None"
      "truthy_str (Some ''wss://localhost'')" "truthy_str (Some ''wss://localhost:99999'')"
    by (simp_all add: truthy_str_def truthy_int_def)
  show ?thesis
    using 1
      server_address_arguments [of "Some ''wss://localhost:8000''" "Some ''localhost''" None
         ?uh ?up 1 2 0 Map.empty None None False None]
      server_address_arguments [of None "Some ''localhost''" None
         ?uh ?up 1 2 0 Map.empty None None False None]
      server_address_arguments [of "Some ''wss://localhost''" None None
         ?uh "\<lambda>u. Inr None" 1 2 0 Map.empty None None False None
         "''wss://localhost''" "Some ''localhost''" None]
      server_address_arguments [of "Some ''wss://localhost:99999''" None None
         ?uh "\<lambda>u. Inl (ValueError ''Port out of range 0-65535'')" 1 2 0 Map.empty None None False None
         "''wss://localhost:99999''" "Some ''localhost''" _ "ValueError ''Port out of range 0-65535''"]
      server_address_arguments [of None "Some ''localhost''" "Some 8000"
         ?uh ?up 1 2 0 Map.empty None None False None]
      server_address_arguments [of "Some ''wss://localhost:8000''" None None
         ?uh ?up 1 2 0 Map.empty None None False None
         "''wss://localhost:8000''" "Some ''localhost''" "Some 8000"]
    by simp
qed

text \<open>
  C9 as stated fails where an argument is supplied but not truthy. A url together with
  the port 0, or with an empty host name, is not refused: the server is built from the
  url. A host name together with the port 0 is refused as if no port were given.
\<close>

theorem server_address_port_zero_counterexample:
  "ServerBase_init (\<lambda>u. Inr (Some ''localhost'')) (\<lambda>u. Inr (Some 8000)) 1 2 0 Map.empty
       None (Some 0) (Some ''wss://localhost:8000'') None None False None
     = (Inr \<lparr>hostname = Some ''localhost'', port = Some 8000, certfile_path = None,
              keyfile_path = None, auth_key = None\<rparr>, Map.empty)
   \<and> ServerBase_init (\<lambda>u. Inr (Some ''localhost'')) (\<lambda>u. Inr (Some 8000)) 1 2 0 Map.empty
       (Some []) None (Some ''wss://localhost:8000'') None None False None
     = (Inr \<lparr>hostname = Some ''localhost'', port = Some 8000, certfile_path = None,
              keyfile_path = None, auth_key = None\<rparr>, Map.empty)
   \<and> ServerBase_init (\<lambda>u. Inr (Some ''localhost'')) (\<lambda>u. Inr (Some 8000)) 1 2 0 Map.empty
       (Some ''localhost'') (Some 0) None None None False None
     = (Inl (ValueError ''Both hostname and port must be specified either directly or via the URL''),
        Map.empty)"
  by (simp add: ServerBase_init_def init_address_def truthy_str_def truthy_int_def)

section \<open>Client: response handler\<close>

text \<open>
  Claim C10. For a response payload with distinct keys among \<open>status\<close>, \<open>event\<close>,
  \<open>data\<close>, with a status and with an event that is a str \<open>s\<close>, the wrapper of
  \<open>handle_response\<close> stores the response whose event is \<open>s\<close> without its last
  four characters, whatever they are, and sets the wake event. On an event built by
  \<open>get_rsp_event\<close> the stripping gives the original event back.
\<close>

theorem handle_response_strips_four_characters:
  assumes "distinct (map fst kvs)"
    and "set (map fst kvs) \<subseteq> {''status'', ''event'', ''data''}"
    and "''status'' \<in> set (map fst kvs)"
    and "map_of kvs ''event'' = Some (PStr s)"
  shows "handle_response_wrapper c (PDict kvs) =
           (None, c\<lparr>rsp := Some \<lparr>status = (case map_of kvs ''status'' of Some v \<Rightarrow> v | None \<Rightarrow> PNone),
                                 event = PStr (take (length s - 4) s),
                                 data = (case map_of kvs ''data'' of Some v \<Rightarrow> v | None \<Rightarrow> PNone)\<rparr>,
                      rsp_event := True\<rparr>)
         \<and> get_rsp_event (PStr e) = Inr (PStr (e @ ''_rsp''))
         \<and> slice_to_minus4 (PStr (e @ ''_rsp'')) = Inr (PStr e)"
proof -
  define kvs' where
    "kvs' = map (\<lambda>(k, v). (k, if k = ''event'' then PStr (take (length s - 4) s) else v)) kvs"
  have strip: "strip_event_items kvs = Inr kvs'"
    unfolding kvs'_def using assms(1,4) by (rule strip_event_items_str)
  have keys: "map fst kvs' = map fst kvs"
    unfolding kvs'_def by (rule map_fst_strip)
  have look: "map_of kvs' k = (if k = ''event'' then map_option (\<lambda>v. PStr (take (length s - 4) s)) (map_of kvs k)
                               else map_of kvs k)" for k
    unfolding kvs'_def by (rule map_of_strip)
  have dec: "Rsp_from_dict (PDict kvs') =
      Inr \<lparr>status = (case map_of kvs ''status'' of Some v \<Rightarrow> v | None \<Rightarrow> PNone),
           event = PStr (take (length s - 4) s),
           data = (case map_of kvs ''data'' of Some v \<Rightarrow> v | None \<Rightarrow> PNone)\<rparr>"
    using assms(2,3,4)
    by (simp add: Rsp_from_dict_def bind_kwargs_def keys look list_all_iff subset_iff)
  show ?thesis
    by (simp add: handle_response_wrapper_def strip dec)
qed

text \<open>
  C10 at an event that does not end in \<open>_rsp\<close>: \<open>abcdefgh\<close> is stored as
  \<open>abcd\<close>.
\<close>

theorem handle_response_strips_four_characters_witness:
  "handle_response_wrapper \<lparr>server_url = ''wss://localhost:8000'', exception_map = [], auth_data = PNone, rsp = None, rsp_event = False, sio = None\<rparr>
      (PDict [(''status'', PStr SUCCESS), (''event'', PStr ''abcdefgh''), (''data'', PInt 1)])
     = (None, \<lparr>server_url = ''wss://localhost:8000'', exception_map = [], auth_data = PNone,
               rsp = Some \<lparr>status = PStr SUCCESS, event = PStr ''abcd'', data = PInt 1\<rparr>,
               rsp_event = True, sio = None\<rparr>)
   \<and> get_rsp_event (PStr ''ping'') = Inr (PStr ''ping_rsp'')
   \<and> slice_to_minus4 (PStr ''ping_rsp'') = Inr (PStr ''ping'')"
  using handle_response_strips_four_characters
          [of "[(''status'', PStr SUCCESS), (''event'', PStr ''abcdefgh''), (''data'', PInt 1)]"
              "''abcdefgh''"
              "\<lparr>server_url = ''wss://localhost:8000'', exception_map = [], auth_data = PNone, rsp = None, rsp_event = False, sio = None\<rparr>"
              "''ping''"]
  by simp

end
